theory Spec2Isabelle
  imports Complex_Main "HOL-Library.AList"
begin

section \<open>Python values, exceptions and the operators the script applies to them\<close>

text \<open>
  The script \<^verbatim>\<open>stock_tool.py\<close> is a thin command-line layer over a market-data
  library. Its own code finds a column of a record by substring, classifies indicator
  values into fixed captions, renders records as a text table, and runs four command
  handlers that catch the library's exceptions.

  A Python \<^verbatim>\<open>str\<close> is modelled as a HOL \<^typ>\<open>string\<close>, one HOL character per
  character of the Python string. The Chinese caption literals of the source do not fit
  into 8-bit characters and are written as the bytes of their UTF-8 encoding; they are
  only ever compared and passed on, never measured.

  A record cell is a scalar: \<^verbatim>\<open>None\<close>, a bool, an int, a float or a str. A finite
  float is modelled by the real number it denotes: comparisons of floats and ints are exact
  in Python, and the rounded difference of two floats has the sign of the exact one.
  Where Python converts an int to a float, the model rounds it to the nearest double.
  NaN and the infinities are outside the model.
\<close>

datatype scalar = SNone | SBool bool | SInt int | SFloat real | SStr string

datatype pyval = Atom scalar | PList "pyval list" | PDict "(string \<times> pyval) list"

type_synonym row = "(string \<times> scalar) list"

text \<open>
  An exception is kept with its class and what \<^verbatim>\<open>str(e)\<close> gives. \<open>ExternalError\<close>
  is any exception raised by the market-data library, with its string form.
\<close>

datatype pyexn =
  TypeError string | AttributeError string | OverflowError string | ExternalError string

fun exn_str :: "pyexn \<Rightarrow> string" where
  "exn_str (TypeError m) = m"
| "exn_str (AttributeError m) = m"
| "exn_str (OverflowError m) = m"
| "exn_str (ExternalError m) = m"

fun type_name :: "scalar \<Rightarrow> string" where
  "type_name SNone = ''NoneType''"
| "type_name (SBool _) = ''bool''"
| "type_name (SInt _) = ''int''"
| "type_name (SFloat _) = ''float''"
| "type_name (SStr _) = ''str''"

fun val_type_name :: "pyval \<Rightarrow> string" where
  "val_type_name (Atom a) = type_name a"
| "val_type_name (PList _) = ''list''"
| "val_type_name (PDict _) = ''dict''"

text \<open>The numeric value of a number; \<^verbatim>\<open>bool\<close> is a subclass of \<^verbatim>\<open>int\<close>.\<close>

fun num_of :: "scalar \<Rightarrow> real option" where
  "num_of (SBool b) = Some (if b then 1 else 0)"
| "num_of (SInt i) = Some (of_int i)"
| "num_of (SFloat x) = Some x"
| "num_of _ = None"

fun int_of :: "scalar \<Rightarrow> int option" where
  "int_of (SBool b) = Some (if b then 1 else 0)"
| "int_of (SInt i) = Some i"
| "int_of _ = None"

text \<open>Python orders strings lexicographically by code point.\<close>

fun str_lt :: "string \<Rightarrow> string \<Rightarrow> bool" where
  "str_lt [] [] = False"
| "str_lt [] (y # ys) = True"
| "str_lt (x # xs) [] = False"
| "str_lt (x # xs) (y # ys) =
     (if x = y then str_lt xs ys else (of_char x :: nat) < of_char y)"

datatype cmpop = Gt | Ge | Lt | Le

fun op_symbol :: "cmpop \<Rightarrow> string" where
  "op_symbol Gt = ''>''"
| "op_symbol Ge = ''>=''"
| "op_symbol Lt = ''<''"
| "op_symbol Le = ''<=''"

fun cmp_real :: "cmpop \<Rightarrow> real \<Rightarrow> real \<Rightarrow> bool" where
  "cmp_real Gt x y = (x > y)"
| "cmp_real Ge x y = (x \<ge> y)"
| "cmp_real Lt x y = (x < y)"
| "cmp_real Le x y = (x \<le> y)"

fun cmp_str :: "cmpop \<Rightarrow> string \<Rightarrow> string \<Rightarrow> bool" where
  "cmp_str Gt s t = str_lt t s"
| "cmp_str Ge s t = (\<not> str_lt s t)"
| "cmp_str Lt s t = str_lt s t"
| "cmp_str Le s t = (\<not> str_lt t s)"

text \<open>
  An ordering comparison of two scalars: numbers compare by value, strings by code
  points, and every other pair of operands raises \<^verbatim>\<open>TypeError\<close>.
\<close>

definition unorderable :: "cmpop \<Rightarrow> scalar \<Rightarrow> scalar \<Rightarrow> pyexn" where
  "unorderable opr a b =
     TypeError ([CHR 0x27] @ op_symbol opr @ [CHR 0x27] @
       '' not supported between instances of '' @
       [CHR 0x27] @ type_name a @ [CHR 0x27] @ '' and '' @
       [CHR 0x27] @ type_name b @ [CHR 0x27])"

fun py_cmp :: "cmpop \<Rightarrow> scalar \<Rightarrow> scalar \<Rightarrow> pyexn + bool" where
  "py_cmp opr (SStr s) (SStr t) = Inr (cmp_str opr s t)"
| "py_cmp opr a b =
     (case (num_of a, num_of b) of
        (Some x, Some y) \<Rightarrow> Inr (cmp_real opr x y)
      | _ \<Rightarrow> Inl (unorderable opr a b))"

text \<open>
  The conversion of an int to a float, which Python applies to the int operand of an
  arithmetic operation with a float: an int of at most 53 bits is exact; a longer one is
  rounded to 53 significant bits, ties to even; and \<^verbatim>\<open>OverflowError\<close> is raised when
  the rounded value does not fit a double.
\<close>

fun bit_length :: "nat \<Rightarrow> nat" where
  "bit_length n = (if n = 0 then 0 else Suc (bit_length (n div 2)))"

declare bit_length.simps [simp del]

definition py_float :: "int \<Rightarrow> pyexn + real" where
  "py_float i =
     (let a = nat \<bar>i\<bar>; n = bit_length a
      in if n \<le> 53 then Inr (of_int i)
         else
           (let u = 2 ^ (n - 53);
                q = a div u;
                r = a mod u;
                q' = (if 2 * r > u \<or> (2 * r = u \<and> odd q) then q + 1 else q);
                rounded = q' * u
            in if rounded \<ge> 2 ^ 1024
               then Inl (OverflowError ''int too large to convert to float'')
               else Inr (of_int (sgn i * int rounded))))"

fun as_float :: "scalar \<Rightarrow> (pyexn + real) option" where
  "as_float (SBool b) = Some (Inr (if b then 1 else 0))"
| "as_float (SInt i) = Some (py_float i)"
| "as_float (SFloat x) = Some (Inr x)"
| "as_float _ = None"

text \<open>
  Subtraction is defined on numbers only. Two ints (or bools) are subtracted exactly;
  otherwise an int operand is converted to a float first.
\<close>

definition py_sub :: "scalar \<Rightarrow> scalar \<Rightarrow> pyexn + scalar" where
  "py_sub a b =
     (case (int_of a, int_of b) of
        (Some i, Some j) \<Rightarrow> Inr (SInt (i - j))
      | _ \<Rightarrow>
        (case (as_float a, as_float b) of
           (Some fa, Some fb) \<Rightarrow>
             (case fa of
                Inl e \<Rightarrow> Inl e
              | Inr x \<Rightarrow> (case fb of Inl e \<Rightarrow> Inl e | Inr y \<Rightarrow> Inr (SFloat (x - y))))
         | _ \<Rightarrow>
           Inl (TypeError (''unsupported operand type(s) for -: '' @
             [CHR 0x27] @ type_name a @ [CHR 0x27] @ '' and '' @
             [CHR 0x27] @ type_name b @ [CHR 0x27]))))"

text \<open>
  \<^verbatim>\<open>if c: a else: b\<close> and \<^verbatim>\<open>c1 and c2\<close> where evaluating a condition may raise;
  \<^verbatim>\<open>and\<close> does not evaluate its right operand when the left one is false.
\<close>

definition py_if :: "pyexn + bool \<Rightarrow> pyexn + 'a \<Rightarrow> pyexn + 'a \<Rightarrow> pyexn + 'a" where
  "py_if c a b = (case c of Inl e \<Rightarrow> Inl e | Inr t \<Rightarrow> if t then a else b)"

definition py_and :: "pyexn + bool \<Rightarrow> pyexn + bool \<Rightarrow> pyexn + bool" where
  "py_and c1 c2 = (case c1 of Inl e \<Rightarrow> Inl e | Inr t \<Rightarrow> if t then c2 else Inr False)"

text \<open>
  A dict is an association list in insertion order. \<^verbatim>\<open>d.get(k)\<close> gives \<^verbatim>\<open>None\<close>
  for a missing key.
\<close>

definition dict_get :: "row \<Rightarrow> string \<Rightarrow> scalar" where
  "dict_get d k = (case map_of d k of None \<Rightarrow> SNone | Some v \<Rightarrow> v)"

section \<open>Interpretation classifiers\<close>

text \<open>The caption literals of the four classifiers, as UTF-8 bytes.\<close>

definition caption_cannot_compute :: string where
  "caption_cannot_compute =
     [CHR 0xE6, CHR 0x97, CHR 0xA0, CHR 0xE6, CHR 0xB3, CHR 0x95, CHR 0xE8, CHR 0xAE, CHR 0xA1,
      CHR 0xE7, CHR 0xAE, CHR 0x97]"

definition rsi_overbought :: string where
  "rsi_overbought =
     [CHR 0xE8, CHR 0xB6, CHR 0x85, CHR 0xE4, CHR 0xB9, CHR 0xB0, CHR 0xE5, CHR 0x8C, CHR 0xBA,
      CHR 0xE5, CHR 0x9F, CHR 0x9F, CHR 0xEF, CHR 0xBC, CHR 0x8C, CHR 0xE5, CHR 0x8F, CHR 0xAF,
      CHR 0xE8, CHR 0x83, CHR 0xBD, CHR 0xE9, CHR 0x9D, CHR 0xA2, CHR 0xE4, CHR 0xB8, CHR 0xB4,
      CHR 0xE5, CHR 0x9B, CHR 0x9E, CHR 0xE8, CHR 0xB0, CHR 0x83, CHR 0xE5, CHR 0x8E, CHR 0x8B,
      CHR 0xE5, CHR 0x8A, CHR 0x9B]"

definition rsi_oversold :: string where
  "rsi_oversold =
     [CHR 0xE8, CHR 0xB6, CHR 0x85, CHR 0xE5, CHR 0x8D, CHR 0x96, CHR 0xE5, CHR 0x8C, CHR 0xBA,
      CHR 0xE5, CHR 0x9F, CHR 0x9F, CHR 0xEF, CHR 0xBC, CHR 0x8C, CHR 0xE5, CHR 0x8F, CHR 0xAF,
      CHR 0xE8, CHR 0x83, CHR 0xBD, CHR 0xE5, CHR 0xAD, CHR 0x98, CHR 0xE5, CHR 0x9C, CHR 0xA8,
      CHR 0xE5, CHR 0x8F, CHR 0x8D, CHR 0xE5, CHR 0xBC, CHR 0xB9, CHR 0xE6, CHR 0x9C, CHR 0xBA,
      CHR 0xE4, CHR 0xBC, CHR 0x9A]"

definition rsi_strong :: string where
  "rsi_strong =
     [CHR 0xE5, CHR 0x81, CHR 0x8F, CHR 0xE5, CHR 0xBC, CHR 0xBA, CHR 0xE5, CHR 0x8A, CHR 0xBF,
      CHR 0xEF, CHR 0xBC, CHR 0x8C, CHR 0xE5, CHR 0xA4, CHR 0x9A, CHR 0xE5, CHR 0xA4, CHR 0xB4,
      CHR 0xE5, CHR 0x8D, CHR 0xA0, CHR 0xE4, CHR 0xBC, CHR 0x98]"

definition rsi_weak :: string where
  "rsi_weak =
     [CHR 0xE5, CHR 0x81, CHR 0x8F, CHR 0xE5, CHR 0xBC, CHR 0xB1, CHR 0xE5, CHR 0x8A, CHR 0xBF,
      CHR 0xEF, CHR 0xBC, CHR 0x8C, CHR 0xE7, CHR 0xA9, CHR 0xBA, CHR 0xE5, CHR 0xA4, CHR 0xB4,
      CHR 0xE5, CHR 0x8D, CHR 0xA0, CHR 0xE4, CHR 0xBC, CHR 0x98]"

definition macd_golden_cross :: string where
  "macd_golden_cross =
     [CHR 0xE9, CHR 0x87, CHR 0x91, CHR 0xE5, CHR 0x8F, CHR 0x89, CHR 0xE5, CHR 0xBD, CHR 0xA2,
      CHR 0xE6, CHR 0x80, CHR 0x81, CHR 0xEF, CHR 0xBC, CHR 0x8C, CHR 0xE5, CHR 0xA4, CHR 0x9A,
      CHR 0xE5, CHR 0xA4, CHR 0xB4, CHR 0xE4, CHR 0xBF, CHR 0xA1, CHR 0xE5, CHR 0x8F, CHR 0xB7]"

definition macd_death_cross :: string where
  "macd_death_cross =
     [CHR 0xE6, CHR 0xAD, CHR 0xBB, CHR 0xE5, CHR 0x8F, CHR 0x89, CHR 0xE5, CHR 0xBD, CHR 0xA2,
      CHR 0xE6, CHR 0x80, CHR 0x81, CHR 0xEF, CHR 0xBC, CHR 0x8C, CHR 0xE7, CHR 0xA9, CHR 0xBA,
      CHR 0xE5, CHR 0xA4, CHR 0xB4, CHR 0xE4, CHR 0xBF, CHR 0xA1, CHR 0xE5, CHR 0x8F, CHR 0xB7]"

definition macd_above_zero :: string where
  "macd_above_zero =
     [CHR 0x4D, CHR 0x41, CHR 0x43, CHR 0x44, CHR 0x20, CHR 0xE5, CHR 0x9C, CHR 0xA8, CHR 0xE9,
      CHR 0x9B, CHR 0xB6, CHR 0xE8, CHR 0xBD, CHR 0xB4, CHR 0xE4, CHR 0xB8, CHR 0x8A, CHR 0xE6,
      CHR 0x96, CHR 0xB9, CHR 0xEF, CHR 0xBC, CHR 0x8C, CHR 0xE6, CHR 0x95, CHR 0xB4, CHR 0xE4,
      CHR 0xBD, CHR 0x93, CHR 0xE5, CHR 0x81, CHR 0x8F, CHR 0xE5, CHR 0xA4, CHR 0x9A]"

definition macd_below_zero :: string where
  "macd_below_zero =
     [CHR 0x4D, CHR 0x41, CHR 0x43, CHR 0x44, CHR 0x20, CHR 0xE5, CHR 0x9C, CHR 0xA8, CHR 0xE9,
      CHR 0x9B, CHR 0xB6, CHR 0xE8, CHR 0xBD, CHR 0xB4, CHR 0xE4, CHR 0xB8, CHR 0x8B, CHR 0xE6,
      CHR 0x96, CHR 0xB9, CHR 0xEF, CHR 0xBC, CHR 0x8C, CHR 0xE6, CHR 0x95, CHR 0xB4, CHR 0xE4,
      CHR 0xBD, CHR 0x93, CHR 0xE5, CHR 0x81, CHR 0x8F, CHR 0xE7, CHR 0xA9, CHR 0xBA]"

definition adx_trending :: string where
  "adx_trending =
     [CHR 0xE8, CHR 0xB6, CHR 0x8B, CHR 0xE5, CHR 0x8A, CHR 0xBF, CHR 0xE6, CHR 0x98, CHR 0x8E,
      CHR 0xE6, CHR 0x98, CHR 0xBE, CHR 0xEF, CHR 0xBC, CHR 0x8C, CHR 0xE9, CHR 0x80, CHR 0x82,
      CHR 0xE5, CHR 0x90, CHR 0x88, CHR 0xE8, CHR 0xB6, CHR 0x8B, CHR 0xE5, CHR 0x8A, CHR 0xBF,
      CHR 0xE8, CHR 0xB7, CHR 0x9F, CHR 0xE8, CHR 0xB8, CHR 0xAA, CHR 0xE7, CHR 0xAD, CHR 0x96,
      CHR 0xE7, CHR 0x95, CHR 0xA5]"

definition adx_ranging :: string where
  "adx_ranging =
     [CHR 0xE8, CHR 0xB6, CHR 0x8B, CHR 0xE5, CHR 0x8A, CHR 0xBF, CHR 0xE4, CHR 0xB8, CHR 0x8D,
      CHR 0xE6, CHR 0x98, CHR 0x8E, CHR 0xE6, CHR 0x98, CHR 0xBE, CHR 0xEF, CHR 0xBC, CHR 0x8C,
      CHR 0xE5, CHR 0xB8, CHR 0x82, CHR 0xE5, CHR 0x9C, CHR 0xBA, CHR 0xE5, CHR 0x8F, CHR 0xAF,
      CHR 0xE8, CHR 0x83, CHR 0xBD, CHR 0xE5, CHR 0xA4, CHR 0x84, CHR 0xE4, CHR 0xBA, CHR 0x8E,
      CHR 0xE9, CHR 0x9C, CHR 0x87, CHR 0xE8, CHR 0x8D, CHR 0xA1]"

definition stoch_overbought :: string where
  "stoch_overbought =
     [CHR 0xE8, CHR 0xB6, CHR 0x85, CHR 0xE4, CHR 0xB9, CHR 0xB0, CHR 0xE5, CHR 0x8C, CHR 0xBA,
      CHR 0xE5, CHR 0x9F, CHR 0x9F, CHR 0xEF, CHR 0xBC, CHR 0x8C, CHR 0xE6, CHR 0xB3, CHR 0xA8,
      CHR 0xE6, CHR 0x84, CHR 0x8F, CHR 0xE5, CHR 0x9B, CHR 0x9E, CHR 0xE8, CHR 0xB0, CHR 0x83,
      CHR 0xE9, CHR 0xA3, CHR 0x8E, CHR 0xE9, CHR 0x99, CHR 0xA9]"

definition stoch_oversold :: string where
  "stoch_oversold =
     [CHR 0xE8, CHR 0xB6, CHR 0x85, CHR 0xE5, CHR 0x8D, CHR 0x96, CHR 0xE5, CHR 0x8C, CHR 0xBA,
      CHR 0xE5, CHR 0x9F, CHR 0x9F, CHR 0xEF, CHR 0xBC, CHR 0x8C, CHR 0xE5, CHR 0x8F, CHR 0xAF,
      CHR 0xE8, CHR 0x83, CHR 0xBD, CHR 0xE5, CHR 0xAD, CHR 0x98, CHR 0xE5, CHR 0x9C, CHR 0xA8,
      CHR 0xE5, CHR 0x8F, CHR 0x8D, CHR 0xE5, CHR 0xBC, CHR 0xB9, CHR 0xE6, CHR 0x9C, CHR 0xBA,
      CHR 0xE4, CHR 0xBC, CHR 0x9A]"

definition stoch_k_above_d :: string where
  "stoch_k_above_d =
     [CHR 0x4B, CHR 0xE7, CHR 0xBA, CHR 0xBF, CHR 0xE4, CHR 0xB8, CHR 0x8A, CHR 0xE7, CHR 0xA9,
      CHR 0xBF, CHR 0x44, CHR 0xE7, CHR 0xBA, CHR 0xBF, CHR 0xEF, CHR 0xBC, CHR 0x8C, CHR 0xE7,
      CHR 0x9F, CHR 0xAD, CHR 0xE6, CHR 0x9C, CHR 0x9F, CHR 0xE5, CHR 0x81, CHR 0x8F, CHR 0xE5,
      CHR 0xA4, CHR 0x9A]"

definition stoch_k_below_d :: string where
  "stoch_k_below_d =
     [CHR 0x4B, CHR 0xE7, CHR 0xBA, CHR 0xBF, CHR 0xE4, CHR 0xB8, CHR 0x8B, CHR 0xE7, CHR 0xA9,
      CHR 0xBF, CHR 0x44, CHR 0xE7, CHR 0xBA, CHR 0xBF, CHR 0xEF, CHR 0xBC, CHR 0x8C, CHR 0xE7,
      CHR 0x9F, CHR 0xAD, CHR 0xE6, CHR 0x9C, CHR 0x9F, CHR 0xE5, CHR 0x81, CHR 0x8F, CHR 0xE7,
      CHR 0xA9, CHR 0xBA]"

text \<open>\<^verbatim>\<open>interpret_rsi(value)\<close>.\<close>

definition interpret_rsi :: "scalar \<Rightarrow> pyexn + string" where
  "interpret_rsi v =
     (if v = SNone then Inr caption_cannot_compute
      else py_if (py_cmp Ge v (SInt 70)) (Inr rsi_overbought)
          (py_if (py_cmp Le v (SInt 30)) (Inr rsi_oversold)
          (py_if (py_cmp Ge v (SInt 50)) (Inr rsi_strong)
          (Inr rsi_weak))))"

text \<open>
  \<^verbatim>\<open>interpret_macd(data)\<close>: the three values are read with \<^verbatim>\<open>data.get\<close>, and a
  missing histogram is derived as \<^verbatim>\<open>macd - signal\<close>.
\<close>

definition interpret_macd :: "row \<Rightarrow> pyexn + string" where
  "interpret_macd d =
     (let macd = dict_get d ''macd'';
          signal = dict_get d ''signal'';
          histogram = dict_get d ''histogram''
      in if macd = SNone \<or> signal = SNone then Inr caption_cannot_compute
         else (case (if histogram = SNone then py_sub macd signal else Inr histogram) of
                 Inl e \<Rightarrow> Inl e
               | Inr h \<Rightarrow>
                   py_if (py_and (py_cmp Gt macd signal) (py_cmp Gt h (SInt 0)))
                     (Inr macd_golden_cross)
                  (py_if (py_and (py_cmp Lt macd signal) (py_cmp Lt h (SInt 0)))
                     (Inr macd_death_cross)
                  (py_if (py_cmp Gt macd (SInt 0)) (Inr macd_above_zero)
                     (Inr macd_below_zero)))))"

text \<open>\<^verbatim>\<open>interpret_adx(value)\<close>.\<close>

definition interpret_adx :: "scalar \<Rightarrow> pyexn + string" where
  "interpret_adx v =
     (if v = SNone then Inr caption_cannot_compute
      else py_if (py_cmp Ge v (SInt 25)) (Inr adx_trending) (Inr adx_ranging))"

text \<open>\<^verbatim>\<open>interpret_stoch(data)\<close>.\<close>

definition interpret_stoch :: "row \<Rightarrow> pyexn + string" where
  "interpret_stoch d =
     (let k = dict_get d ''k''; dv = dict_get d ''d''
      in if k = SNone \<or> dv = SNone then Inr caption_cannot_compute
         else py_if (py_and (py_cmp Ge k (SInt 80)) (py_cmp Ge dv (SInt 80)))
                (Inr stoch_overbought)
             (py_if (py_and (py_cmp Le k (SInt 20)) (py_cmp Le dv (SInt 20)))
                (Inr stoch_oversold)
             (py_if (py_cmp Gt k dv) (Inr stoch_k_above_d) (Inr stoch_k_below_d))))"

section \<open>Strings\<close>

text \<open>\<^verbatim>\<open>s.startswith(p)\<close> and the substring test \<^verbatim>\<open>p in s\<close>.\<close>

fun starts_with :: "string \<Rightarrow> string \<Rightarrow> bool" where
  "starts_with [] s = True"
| "starts_with (p # ps) [] = False"
| "starts_with (p # ps) (c # cs) = (p = c \<and> starts_with ps cs)"

fun py_in :: "string \<Rightarrow> string \<Rightarrow> bool" where
  "py_in p [] = (p = [])"
| "py_in p (c # cs) = (starts_with p (c # cs) \<or> py_in p cs)"

text \<open>\<^verbatim>\<open>str(n)\<close> of an int: decimal digits, with a minus sign for a negative number.\<close>

fun str_nat :: "nat \<Rightarrow> string" where
  "str_nat n =
     (if n < 10 then [''0123456789'' ! n]
      else str_nat (n div 10) @ [''0123456789'' ! (n mod 10)])"

declare str_nat.simps [simp del]

definition str_int :: "int \<Rightarrow> string" where
  "str_int i = (if i < 0 then CHR ''-'' # str_nat (nat (- i)) else str_nat (nat i))"

text \<open>\<^verbatim>\<open>sep.join(xs)\<close>, \<^verbatim>\<open>s.ljust(w)\<close> and \<^verbatim>\<open>s.split(sep)\<close> for a one-character separator.\<close>

fun join :: "string \<Rightarrow> string list \<Rightarrow> string" where
  "join sep [] = []"
| "join sep [x] = x"
| "join sep (x # y # ys) = x @ sep @ join sep (y # ys)"

definition ljust :: "string \<Rightarrow> nat \<Rightarrow> string" where
  "ljust s w = s @ replicate (w - length s) CHR '' ''"

fun split_on :: "char \<Rightarrow> string \<Rightarrow> string list" where
  "split_on sep [] = [[]]"
| "split_on sep (c # cs) =
     (if c = sep then [] # split_on sep cs
      else (case split_on sep cs of
              [] \<Rightarrow> [[c]]
            | w # ws \<Rightarrow> (c # w) # ws))"

text \<open>\<^verbatim>\<open>max(xs, default=d)\<close> on lengths.\<close>

fun py_max :: "nat list \<Rightarrow> nat \<Rightarrow> nat" where
  "py_max [] d = d"
| "py_max (x # xs) d = fold max xs x"

section \<open>Field extractor\<close>

text \<open>
  \<^verbatim>\<open>find_indicator_key(data, pattern)\<close>: the first key, in the dict's order, that contains
  the pattern; \<^verbatim>\<open>None\<close> when there is none.
\<close>

definition find_indicator_key :: "row \<Rightarrow> string \<Rightarrow> string option" where
  "find_indicator_key d pattern = List.find (\<lambda>key. py_in pattern key) (map fst d)"

text \<open>
  \<^verbatim>\<open>get_indicator_value(data, pattern)\<close> is \<^verbatim>\<open>data.get(key) if key else None\<close>: the
  condition is the truth value of the key, so both \<^verbatim>\<open>None\<close> and the empty string
  take the \<^verbatim>\<open>else\<close> branch.
\<close>

definition get_indicator_value :: "row \<Rightarrow> string \<Rightarrow> scalar" where
  "get_indicator_value d pattern =
     (case find_indicator_key d pattern of
        None \<Rightarrow> SNone
      | Some key \<Rightarrow> if key \<noteq> [] then dict_get d key else SNone)"

section \<open>The Python runtime the script calls\<close>

text \<open>
  Library functions that the script calls and does not define are parameters of the model:
  the JSON serialiser with its keyword arguments, \<^verbatim>\<open>str\<close> of a float, a list or a
  dict, \<^verbatim>\<open>str.lower\<close> and \<^verbatim>\<open>str.strip\<close> (whose results depend on the Unicode tables),
  and the clock with date arithmetic and \<^verbatim>\<open>strftime\<close>. Every theorem below holds for
  all values of these parameters.
\<close>

record json_opts =
  indent :: "nat option"
  default_str :: bool
  ensure_ascii :: bool

record 't runtime =
  json_dumps :: "json_opts \<Rightarrow> pyval \<Rightarrow> string"
  py_str :: "pyval \<Rightarrow> string"
  py_lower :: "string \<Rightarrow> string"
  py_strip :: "string \<Rightarrow> string"
  now :: 't
  minus_days :: "'t \<Rightarrow> int \<Rightarrow> 't"
  strftime :: "'t \<Rightarrow> string \<Rightarrow> string"

text \<open>\<^verbatim>\<open>str(v)\<close>: written out where it is exact, the parameter otherwise.\<close>

fun str_of :: "'t runtime \<Rightarrow> pyval \<Rightarrow> string" where
  "str_of rt (Atom SNone) = ''None''"
| "str_of rt (Atom (SBool b)) = (if b then ''True'' else ''False'')"
| "str_of rt (Atom (SInt i)) = str_int i"
| "str_of rt (Atom (SStr s)) = s"
| "str_of rt v = py_str rt v"

text \<open>Python's truth value of an object.\<close>

fun truthy :: "pyval \<Rightarrow> bool" where
  "truthy (Atom SNone) = False"
| "truthy (Atom (SBool b)) = b"
| "truthy (Atom (SInt i)) = (i \<noteq> 0)"
| "truthy (Atom (SFloat x)) = (x \<noteq> 0)"
| "truthy (Atom (SStr s)) = (s \<noteq> [])"
| "truthy (PList xs) = (xs \<noteq> [])"
| "truthy (PDict d) = (d \<noteq> [])"

section \<open>Output formatter\<close>

text \<open>
  Attribute access on an object that is not a dict raises \<^verbatim>\<open>AttributeError\<close>.
\<close>

definition no_attribute :: "pyval \<Rightarrow> string \<Rightarrow> pyexn" where
  "no_attribute v a =
     AttributeError ([CHR 0x27] @ val_type_name v @ [CHR 0x27] @
       '' object has no attribute '' @ [CHR 0x27] @ a @ [CHR 0x27])"

fun keys_of :: "pyval \<Rightarrow> pyexn + string list" where
  "keys_of (PDict d) = Inr (map fst d)"
| "keys_of v = Inl (no_attribute v ''keys'')"

text \<open>\<^verbatim>\<open>str(row.get(h, ""))\<close>.\<close>

fun get_cell :: "'t runtime \<Rightarrow> pyval \<Rightarrow> string \<Rightarrow> pyexn + string" where
  "get_cell rt (PDict d) h =
     Inr (case map_of d h of
            None \<Rightarrow> str_of rt (Atom (SStr ''''))
          | Some v \<Rightarrow> str_of rt v)"
| "get_cell rt v h = Inl (no_attribute v ''get'')"

text \<open>A comprehension whose elements may raise: the first exception ends it.\<close>

fun collect :: "(pyexn + 'a) list \<Rightarrow> pyexn + 'a list" where
  "collect [] = Inr []"
| "collect (x # xs) =
     (case x of
        Inl e \<Rightarrow> Inl e
      | Inr v \<Rightarrow> (case collect xs of Inl e \<Rightarrow> Inl e | Inr vs \<Rightarrow> Inr (v # vs)))"

definition table_rows :: "'t runtime \<Rightarrow> string list \<Rightarrow> pyval list \<Rightarrow> pyexn + string list list" where
  "table_rows rt headers data =
     collect (map (\<lambda>row. collect (map (\<lambda>h. get_cell rt row h) headers)) data)"

definition col_widths :: "string list \<Rightarrow> string list list \<Rightarrow> nat list" where
  "col_widths headers rows =
     map (\<lambda>(i, h). max (length h) (py_max (map (\<lambda>r. length (r ! i)) rows) 0))
       (enumerate 0 headers)"

definition header_line :: "string list \<Rightarrow> nat list \<Rightarrow> string" where
  "header_line headers widths =
     join '' | '' (map (\<lambda>(i, h). ljust h (widths ! i)) (enumerate 0 headers))"

definition separator :: "nat list \<Rightarrow> string" where
  "separator widths = join ''-+-'' (map (\<lambda>w. replicate w CHR ''-'') widths)"

definition padded_cells :: "string list \<Rightarrow> nat list \<Rightarrow> string list \<Rightarrow> string list" where
  "padded_cells headers widths r =
     map (\<lambda>i. ljust (r ! i) (widths ! i)) [0..<length headers]"

definition data_lines :: "string list \<Rightarrow> nat list \<Rightarrow> string list list \<Rightarrow> string list" where
  "data_lines headers widths rows =
     map (\<lambda>r. join '' | '' (padded_cells headers widths r)) rows"

text \<open>The table branch of \<^verbatim>\<open>format_output\<close>, for a non-empty list.\<close>

definition format_table :: "'t runtime \<Rightarrow> pyval list \<Rightarrow> pyexn + string" where
  "format_table rt data =
     (case keys_of (hd data) of
        Inl e \<Rightarrow> Inl e
      | Inr headers \<Rightarrow>
          (case table_rows rt headers data of
             Inl e \<Rightarrow> Inl e
           | Inr rows \<Rightarrow>
               (let widths = col_widths headers rows
                in Inr (join [CHR 0x0A]
                     ([header_line headers widths, separator widths] @
                      data_lines headers widths rows)))))"

text \<open>\<^verbatim>\<open>format_output(data, fmt)\<close>.\<close>

definition format_output :: "'t runtime \<Rightarrow> pyval \<Rightarrow> string \<Rightarrow> pyexn + string" where
  "format_output rt data fmt =
     (if fmt = ''json'' then
        Inr (json_dumps rt \<lparr>indent = Some 2, default_str = True, ensure_ascii = False\<rparr> data)
      else if fmt = ''table'' then
        (case data of
           PList (first # rest) \<Rightarrow> format_table rt (first # rest)
         | _ \<Rightarrow> Inr (str_of rt data))
      else Inr (str_of rt data))"

section \<open>The market-data library and the command line\<close>

text \<open>
  A call of the market-data library either raises or returns a result object. The script
  looks at two things of a result: the truth value of its \<^verbatim>\<open>results\<close> attribute, and the
  list of records that \<^verbatim>\<open>to_dict(orient="records")\<close> gives (or, for an object without
  \<^verbatim>\<open>to_dict\<close>, \<^verbatim>\<open>vars\<close> of each result), which may raise as well. Records are dicts
  of scalars. The library is a record of functions: within one invocation the same request
  gets the same answer.
\<close>

record obb_result =
  results :: pyval
  to_dict :: "pyexn + row list"

record obb =
  quote :: "string \<Rightarrow> string \<Rightarrow> pyexn + obb_result"
  historical :: "row \<Rightarrow> pyexn + obb_result"
  company :: "row \<Rightarrow> pyexn + obb_result"
  rsi :: "pyval \<Rightarrow> int \<Rightarrow> pyexn + obb_result"
  macd :: "pyval \<Rightarrow> pyexn + obb_result"
  sma :: "pyval \<Rightarrow> int \<Rightarrow> pyexn + obb_result"
  ema :: "pyval \<Rightarrow> int \<Rightarrow> pyexn + obb_result"
  bbands :: "pyval \<Rightarrow> int \<Rightarrow> pyexn + obb_result"
  adx :: "pyval \<Rightarrow> int \<Rightarrow> pyexn + obb_result"
  stoch :: "pyval \<Rightarrow> pyexn + obb_result"

text \<open>
  The parsed command line (\<^verbatim>\<open>argparse.Namespace\<close>); \<open>end_arg\<close> is \<^verbatim>\<open>args.end\<close>.
  An option that was not given is \<^verbatim>\<open>None\<close>.
\<close>

record cli_args =
  symbol :: string
  provider :: string
  format :: string
  start :: "string option"
  end_arg :: "string option"
  interval :: "string option"
  limit :: int
  indicators :: string
  period :: int

text \<open>
  What a handler does to the outside: the lines it prints and the exit status of the
  process (0 when the handler returns, 1 after \<^verbatim>\<open>sys.exit(1)\<close>).
\<close>

record outcome =
  printed :: "string list"
  status :: nat

text \<open>\<^verbatim>\<open>print(json.dumps({"error": msg, "symbol": args.symbol})); sys.exit(1)\<close>.\<close>

definition error_object :: "string \<Rightarrow> string \<Rightarrow> pyval" where
  "error_object msg symb = PDict [(''error'', Atom (SStr msg)), (''symbol'', Atom (SStr symb))]"

definition exit_with_error :: "'t runtime \<Rightarrow> string \<Rightarrow> string \<Rightarrow> outcome" where
  "exit_with_error rt msg symb =
     \<lparr>printed = [json_dumps rt \<lparr>indent = None, default_str = False, ensure_ascii = True\<rparr>
                   (error_object msg symb)],
      status = 1\<rparr>"

text \<open>A list of records as a Python value.\<close>

definition row_val :: "row \<Rightarrow> pyval" where
  "row_val r = PDict (map (\<lambda>(k, v). (k, Atom v)) r)"

definition records_val :: "row list \<Rightarrow> pyval" where
  "records_val rs = PList (map row_val rs)"

text \<open>\<^verbatim>\<open>if v: kwargs[k] = v\<close> for an optional string argument.\<close>

definition set_if_given :: "string \<Rightarrow> string option \<Rightarrow> row \<Rightarrow> row" where
  "set_if_given k v kwargs =
     (case v of
        None \<Rightarrow> kwargs
      | Some s \<Rightarrow> if s \<noteq> [] then AList.update k (SStr s) kwargs else kwargs)"

text \<open>
  The part the three record commands share: a non-empty result is converted to records,
  formatted and printed; an empty one is reported with the handler's message. Any exception
  on the way is reported with its string form.
\<close>

definition print_result :: "'t runtime \<Rightarrow> cli_args \<Rightarrow> string \<Rightarrow> pyexn + obb_result \<Rightarrow> outcome" where
  "print_result rt args empty_msg call =
     (case call of
        Inl e \<Rightarrow> exit_with_error rt (exn_str e) (symbol args)
      | Inr result \<Rightarrow>
          if truthy (results result) then
            (case to_dict result of
               Inl e \<Rightarrow> exit_with_error rt (exn_str e) (symbol args)
             | Inr data \<Rightarrow>
                 (case format_output rt (records_val data) (format args) of
                    Inl e \<Rightarrow> exit_with_error rt (exn_str e) (symbol args)
                  | Inr text \<Rightarrow> \<lparr>printed = [text], status = 0\<rparr>))
          else exit_with_error rt empty_msg (symbol args))"

text \<open>\<^verbatim>\<open>cmd_quote(args)\<close>.\<close>

definition cmd_quote :: "'t runtime \<Rightarrow> obb \<Rightarrow> cli_args \<Rightarrow> outcome" where
  "cmd_quote rt ob args =
     print_result rt args ''No data returned'' (quote ob (symbol args) (provider args))"

text \<open>\<^verbatim>\<open>cmd_history(args)\<close>.\<close>

definition history_kwargs :: "cli_args \<Rightarrow> row" where
  "history_kwargs args =
     set_if_given ''interval'' (interval args)
       (set_if_given ''end_date'' (end_arg args)
         (set_if_given ''start_date'' (start args)
           [(''symbol'', SStr (symbol args)), (''provider'', SStr (provider args))]))"

definition cmd_history :: "'t runtime \<Rightarrow> obb \<Rightarrow> cli_args \<Rightarrow> outcome" where
  "cmd_history rt ob args =
     print_result rt args ''No data returned'' (historical ob (history_kwargs args))"

text \<open>\<^verbatim>\<open>cmd_news(args)\<close>.\<close>

definition news_kwargs :: "cli_args \<Rightarrow> row" where
  "news_kwargs args =
     set_if_given ''end_date'' (end_arg args)
       (set_if_given ''start_date'' (start args)
         ((if limit args \<noteq> 0 then AList.update ''limit'' (SInt (limit args)) else id)
           [(''symbol'', SStr (symbol args)), (''provider'', SStr (provider args))]))"

definition cmd_news :: "'t runtime \<Rightarrow> obb \<Rightarrow> cli_args \<Rightarrow> outcome" where
  "cmd_news rt ob args =
     print_result rt args ''No news found'' (company ob (news_kwargs args))"

section \<open>Technical analysis\<close>

text \<open>
  The keyword arguments of the history fetch: without a start date the handler asks for
  the year before now, \<^verbatim>\<open>(datetime.now() - timedelta(days=365)).strftime("%Y-%m-%d")\<close>.
\<close>

definition technical_kwargs :: "'t runtime \<Rightarrow> cli_args \<Rightarrow> row" where
  "technical_kwargs rt args =
     AList.update ''start_date''
       (case start args of
          None \<Rightarrow> SStr (strftime rt (minus_days rt (now rt) 365) ''%Y-%m-%d'')
        | Some s \<Rightarrow>
            if s \<noteq> [] then SStr s
            else SStr (strftime rt (minus_days rt (now rt) 365) ''%Y-%m-%d''))
       [(''symbol'', SStr (symbol args)), (''provider'', SStr (provider args))]"

text \<open>\<^verbatim>\<open>[ind.strip().lower() for ind in args.indicators.split(",")]\<close>.\<close>

definition indicator_names :: "'t runtime \<Rightarrow> cli_args \<Rightarrow> string list" where
  "indicator_names rt args =
     map (\<lambda>ind. py_lower rt (py_strip rt ind)) (split_on CHR '','' (indicators args))"

text \<open>\<^verbatim>\<open>xs[-10:]\<close> and \<^verbatim>\<open>data[-1] if data else {}\<close>.\<close>

definition last10 :: "'a list \<Rightarrow> 'a list" where
  "last10 xs = drop (length xs - 10) xs"

definition latest_of :: "row list \<Rightarrow> row" where
  "latest_of data = (if data \<noteq> [] then last data else [])"

text \<open>
  The body of the inner \<^verbatim>\<open>try\<close> for one indicator name. It either raises, or assigns an
  entry to \<^verbatim>\<open>results["indicators"][key]\<close> (\<open>Some (key, entry)\<close>), or, when the library's
  result is empty, does nothing (\<open>None\<close>). \<open>with_records\<close> is the common shape of the seven
  supported branches: call, test \<^verbatim>\<open>ind_result.results\<close>, keep the last ten records.
\<close>

definition with_records ::
  "pyexn + obb_result \<Rightarrow> (row list \<Rightarrow> pyexn + (string \<times> pyval)) \<Rightarrow>
   pyexn + (string \<times> pyval) option" where
  "with_records call build =
     (case call of
        Inl e \<Rightarrow> Inl e
      | Inr ind_result \<Rightarrow>
          if truthy (results ind_result) then
            (case to_dict ind_result of
               Inl e \<Rightarrow> Inl e
             | Inr recs \<Rightarrow>
                 (case build (last10 recs) of Inl e \<Rightarrow> Inl e | Inr kv \<Rightarrow> Inr (Some kv)))
          else Inr None)"

definition indicator_step ::
  "obb \<Rightarrow> cli_args \<Rightarrow> pyval \<Rightarrow> string \<Rightarrow> pyexn + (string \<times> pyval) option" where
  "indicator_step ob args hist indicator =
     (if indicator = ''rsi'' then
        with_records (rsi ob hist (period args)) (\<lambda>data.
          let latest = latest_of data;
              rsi_val = get_indicator_value latest (''RSI_'' @ str_int (period args))
          in case interpret_rsi rsi_val of
               Inl e \<Rightarrow> Inl e
             | Inr text \<Rightarrow>
                 Inr (''rsi'', PDict
                   [(''latest'', Atom rsi_val),
                    (''period'', Atom (SInt (period args))),
                    (''recent_data'', records_val data),
                    (''interpretation'', Atom (SStr text))]))
      else if indicator = ''macd'' then
        with_records (macd ob hist) (\<lambda>data.
          let latest = latest_of data;
              macd_val = get_indicator_value latest ''MACD_12_26_9'';
              signal_val = get_indicator_value latest ''MACDs_12_26_9'';
              hist_val = get_indicator_value latest ''MACDh_12_26_9''
          in case interpret_macd
                    [(''macd'', macd_val), (''signal'', signal_val), (''histogram'', hist_val)] of
               Inl e \<Rightarrow> Inl e
             | Inr text \<Rightarrow>
                 Inr (''macd'', PDict
                   [(''latest_macd'', Atom macd_val),
                    (''latest_signal'', Atom signal_val),
                    (''latest_histogram'', Atom hist_val),
                    (''recent_data'', records_val data),
                    (''interpretation'', Atom (SStr text))]))
      else if indicator = ''sma'' then
        with_records (sma ob hist (period args)) (\<lambda>data.
          let latest = latest_of data;
              sma_val = get_indicator_value latest (''SMA_'' @ str_int (period args))
          in Inr (''sma'', PDict
               [(''latest'', Atom sma_val),
                (''period'', Atom (SInt (period args))),
                (''recent_data'', records_val data)]))
      else if indicator = ''ema'' then
        with_records (ema ob hist (period args)) (\<lambda>data.
          let latest = latest_of data;
              ema_val = get_indicator_value latest (''EMA_'' @ str_int (period args))
          in Inr (''ema'', PDict
               [(''latest'', Atom ema_val),
                (''period'', Atom (SInt (period args))),
                (''recent_data'', records_val data)]))
      else if indicator = ''bbands'' then
        with_records (bbands ob hist (period args)) (\<lambda>data.
          let latest = latest_of data
          in Inr (''bbands'', PDict
               [(''upper'', Atom (get_indicator_value latest (''BBU_'' @ str_int (period args)))),
                (''middle'', Atom (get_indicator_value latest (''BBM_'' @ str_int (period args)))),
                (''lower'', Atom (get_indicator_value latest (''BBL_'' @ str_int (period args)))),
                (''period'', Atom (SInt (period args))),
                (''recent_data'', records_val data)]))
      else if indicator = ''adx'' then
        with_records (adx ob hist (period args)) (\<lambda>data.
          let latest = latest_of data;
              adx_val = get_indicator_value latest (''ADX_'' @ str_int (period args))
          in case interpret_adx adx_val of
               Inl e \<Rightarrow> Inl e
             | Inr text \<Rightarrow>
                 Inr (''adx'', PDict
                   [(''latest'', Atom adx_val),
                    (''period'', Atom (SInt (period args))),
                    (''recent_data'', records_val data),
                    (''interpretation'', Atom (SStr text))]))
      else if indicator = ''stoch'' then
        with_records (stoch ob hist) (\<lambda>data.
          let latest = latest_of data;
              k_val = get_indicator_value latest ''STOCHk_14_3_3'';
              d_val = get_indicator_value latest ''STOCHd_14_3_3''
          in case interpret_stoch [(''k'', k_val), (''d'', d_val)] of
               Inl e \<Rightarrow> Inl e
             | Inr text \<Rightarrow>
                 Inr (''stoch'', PDict
                   [(''k'', Atom k_val),
                    (''d'', Atom d_val),
                    (''recent_data'', records_val data),
                    (''interpretation'', Atom (SStr text))]))
      else
        Inr (Some (indicator, PDict
          [(''error'', Atom (SStr (''Unsupported indicator: '' @ indicator)))])))"

text \<open>
  One turn of the loop: the inner \<^verbatim>\<open>except\<close> stores the exception's string form under
  the indicator's name. \<^verbatim>\<open>d[k] = v\<close> replaces the value of a key in place and appends a
  new key.
\<close>

definition indicator_turn ::
  "obb \<Rightarrow> cli_args \<Rightarrow> pyval \<Rightarrow> string \<Rightarrow> (string \<times> pyval) list \<Rightarrow> (string \<times> pyval) list" where
  "indicator_turn ob args hist indicator entries =
     (case indicator_step ob args hist indicator of
        Inl e \<Rightarrow>
          AList.update indicator (PDict [(''error'', Atom (SStr (exn_str e)))]) entries
      | Inr None \<Rightarrow> entries
      | Inr (Some (key, entry)) \<Rightarrow> AList.update key entry entries)"

definition indicator_entries ::
  "'t runtime \<Rightarrow> obb \<Rightarrow> cli_args \<Rightarrow> pyval \<Rightarrow> (string \<times> pyval) list" where
  "indicator_entries rt ob args hist =
     fold (indicator_turn ob args hist) (indicator_names rt args) []"

definition technical_report :: "'t runtime \<Rightarrow> obb \<Rightarrow> cli_args \<Rightarrow> pyval \<Rightarrow> pyval" where
  "technical_report rt ob args hist =
     PDict [(''symbol'', Atom (SStr (symbol args))),
            (''indicators'', PDict (indicator_entries rt ob args hist))]"

text \<open>\<^verbatim>\<open>cmd_technical(args)\<close>.\<close>

definition cmd_technical :: "'t runtime \<Rightarrow> obb \<Rightarrow> cli_args \<Rightarrow> outcome" where
  "cmd_technical rt ob args =
     (case historical ob (technical_kwargs rt args) of
        Inl e \<Rightarrow> exit_with_error rt (exn_str e) (symbol args)
      | Inr history \<Rightarrow>
          if \<not> truthy (results history) then
            exit_with_error rt ''No historical data for technical analysis'' (symbol args)
          else
            (case format_output rt (technical_report rt ob args (results history))
                    (format args) of
               Inl e \<Rightarrow> exit_with_error rt (exn_str e) (symbol args)
             | Inr text \<Rightarrow> \<lparr>printed = [text], status = 0\<rparr>))"

section \<open>The difference of two numbers as the specification words it\<close>

text \<open>
  "macd minus signal" is the difference of the two values when Python computes it exactly
  or up to a rounding that keeps its sign: for two ints, and for floats and ints of at most
  \<open>2 ^ 53\<close> in absolute value, which convert to floats without rounding.
\<close>

fun spec_exact_number :: "scalar \<Rightarrow> bool" where
  "spec_exact_number (SBool b) = True"
| "spec_exact_number (SInt i) = (\<bar>i\<bar> \<le> 2 ^ 53)"
| "spec_exact_number (SFloat x) = True"
| "spec_exact_number _ = False"

definition spec_exact_difference :: "scalar \<Rightarrow> scalar \<Rightarrow> bool" where
  "spec_exact_difference a b =
     ((int_of a \<noteq> None \<and> int_of b \<noteq> None) \<or> (spec_exact_number a \<and> spec_exact_number b))"

text \<open>
  The MACD caption in the words of the specification, for the values \<open>m\<close> of macd, \<open>s\<close>
  of signal and \<open>h\<close> of the histogram.
\<close>

definition spec_macd_caption :: "real \<Rightarrow> real \<Rightarrow> real \<Rightarrow> string" where
  "spec_macd_caption m s h =
     (if m > s \<and> h > 0 then macd_golden_cross
      else if m < s \<and> h < 0 then macd_death_cross
      else if m > 0 then macd_above_zero
      else macd_below_zero)"

section \<open>The table as the specification words it\<close>

text \<open>
  The text table in the words of the specification, column by column: the headers are the
  keys of the first record; a cell is the string of the record's value under the header,
  empty when the record has no such key; a column is as wide as its longest cell or its
  header; header cells are padded like the others.
\<close>

definition spec_cell :: "'t runtime \<Rightarrow> (string \<times> pyval) list \<Rightarrow> string \<Rightarrow> string" where
  "spec_cell rt r h = (case map_of r h of None \<Rightarrow> [] | Some v \<Rightarrow> str_of rt v)"

definition spec_column_width :: "'t runtime \<Rightarrow> (string \<times> pyval) list list \<Rightarrow> string \<Rightarrow> nat" where
  "spec_column_width rt rows h =
     Max (set (length h # map (\<lambda>r. length (spec_cell rt r h)) rows))"

definition spec_table :: "'t runtime \<Rightarrow> (string \<times> pyval) list list \<Rightarrow> string" where
  "spec_table rt rows =
     (let headers = map fst (hd rows);
          width = spec_column_width rt rows
      in join [CHR 0x0A]
           (join '' | '' (map (\<lambda>h. ljust h (width h)) headers) #
            join ''-+-'' (map (\<lambda>h. replicate (width h) CHR ''-'') headers) #
            map (\<lambda>r. join '' | '' (map (\<lambda>h. ljust (spec_cell rt r h) (width h)) headers))
              rows))"

section \<open>The contract of a record command as the specification words it\<close>

text \<open>
  What the specification asks of the quote, history and news handlers, for the outcome
  \<open>out\<close> of a handler that made the library call \<open>call\<close> for the symbol \<open>symb\<close>:
  an empty result set and an exception are each reported as a JSON object with the keys
  \<^verbatim>\<open>error\<close> and \<^verbatim>\<open>symbol\<close> and exit status 1; otherwise the formatted records are
  printed and the status is 0. The conversion of the result to records is part of the
  library call, so an exception it raises is reported like any other.
\<close>

definition spec_error_report :: "'t runtime \<Rightarrow> string \<Rightarrow> string \<Rightarrow> outcome \<Rightarrow> bool" where
  "spec_error_report rt msg symb out =
     (printed out =
        [json_dumps rt \<lparr>indent = None, default_str = False, ensure_ascii = True\<rparr>
           (PDict [(''error'', Atom (SStr msg)), (''symbol'', Atom (SStr symb))])] \<and>
      status out = 1)"

definition spec_handler_contract ::
  "'t runtime \<Rightarrow> string \<Rightarrow> string \<Rightarrow> string \<Rightarrow> pyexn + obb_result \<Rightarrow> outcome \<Rightarrow> bool" where
  "spec_handler_contract rt symb fmt empty_msg call out =
     ((\<forall>r. call = Inr r \<and> \<not> truthy (results r) \<longrightarrow> spec_error_report rt empty_msg symb out) \<and>
      (\<forall>e. call = Inl e \<longrightarrow> spec_error_report rt (exn_str e) symb out) \<and>
      (\<forall>r e. call = Inr r \<and> truthy (results r) \<and> to_dict r = Inl e \<longrightarrow>
         spec_error_report rt (exn_str e) symb out) \<and>
      (\<forall>r data. call = Inr r \<and> truthy (results r) \<and> to_dict r = Inr data \<longrightarrow>
         (\<exists>text. format_output rt (records_val data) fmt = Inr text \<and>
            printed out = [text] \<and> status out = 0)))"

section \<open>The indicator report as the specification words it\<close>

text \<open>
  The supported indicator names and, for each, the library call the handler makes.
\<close>

definition spec_supported_indicators :: "string list" where
  "spec_supported_indicators = [''rsi'', ''macd'', ''sma'', ''ema'', ''bbands'', ''adx'', ''stoch'']"

definition spec_indicator_call ::
  "obb \<Rightarrow> cli_args \<Rightarrow> pyval \<Rightarrow> string \<Rightarrow> (pyexn + obb_result) option" where
  "spec_indicator_call ob args hist n =
     (if n = ''rsi'' then Some (rsi ob hist (period args))
      else if n = ''macd'' then Some (macd ob hist)
      else if n = ''sma'' then Some (sma ob hist (period args))
      else if n = ''ema'' then Some (ema ob hist (period args))
      else if n = ''bbands'' then Some (bbands ob hist (period args))
      else if n = ''adx'' then Some (adx ob hist (period args))
      else if n = ''stoch'' then Some (stoch ob hist)
      else None)"

definition spec_error_entry :: "string \<Rightarrow> pyval" where
  "spec_error_entry msg = PDict [(''error'', Atom (SStr msg))]"

text \<open>
  The report of one indicator: its latest values, each a key of the report with the column
  pattern it is extracted by; the period, for the indicators that take one; the recent
  records; and the caption, for the indicators that have a classifier.
\<close>

definition spec_latest_fields :: "cli_args \<Rightarrow> string \<Rightarrow> (string \<times> string) list" where
  "spec_latest_fields args n =
     (if n = ''rsi'' then [(''latest'', ''RSI_'' @ str_int (period args))]
      else if n = ''macd'' then
        [(''latest_macd'', ''MACD_12_26_9''), (''latest_signal'', ''MACDs_12_26_9''),
         (''latest_histogram'', ''MACDh_12_26_9'')]
      else if n = ''sma'' then [(''latest'', ''SMA_'' @ str_int (period args))]
      else if n = ''ema'' then [(''latest'', ''EMA_'' @ str_int (period args))]
      else if n = ''bbands'' then
        [(''upper'', ''BBU_'' @ str_int (period args)),
         (''middle'', ''BBM_'' @ str_int (period args)),
         (''lower'', ''BBL_'' @ str_int (period args))]
      else if n = ''adx'' then [(''latest'', ''ADX_'' @ str_int (period args))]
      else if n = ''stoch'' then [(''k'', ''STOCHk_14_3_3''), (''d'', ''STOCHd_14_3_3'')]
      else [])"

definition spec_echoes_period :: "string \<Rightarrow> bool" where
  "spec_echoes_period n = (n \<in> set [''rsi'', ''sma'', ''ema'', ''bbands'', ''adx''])"

definition spec_classifier :: "cli_args \<Rightarrow> string \<Rightarrow> row \<Rightarrow> (pyexn + string) option" where
  "spec_classifier args n latest =
     (if n = ''rsi'' then
        Some (interpret_rsi (get_indicator_value latest (''RSI_'' @ str_int (period args))))
      else if n = ''macd'' then
        Some (interpret_macd
          [(''macd'', get_indicator_value latest ''MACD_12_26_9''),
           (''signal'', get_indicator_value latest ''MACDs_12_26_9''),
           (''histogram'', get_indicator_value latest ''MACDh_12_26_9'')])
      else if n = ''adx'' then
        Some (interpret_adx (get_indicator_value latest (''ADX_'' @ str_int (period args))))
      else if n = ''stoch'' then
        Some (interpret_stoch
          [(''k'', get_indicator_value latest ''STOCHk_14_3_3''),
           (''d'', get_indicator_value latest ''STOCHd_14_3_3'')])
      else None)"

definition spec_entry :: "cli_args \<Rightarrow> string \<Rightarrow> row list \<Rightarrow> string option \<Rightarrow> pyval" where
  "spec_entry args n recent caption =
     PDict
       (map (\<lambda>(key, pattern). (key, Atom (get_indicator_value (latest_of recent) pattern)))
          (spec_latest_fields args n) @
        (if spec_echoes_period n then [(''period'', Atom (SInt (period args)))] else []) @
        [(''recent_data'', records_val recent)] @
        (case caption of None \<Rightarrow> [] | Some text \<Rightarrow> [(''interpretation'', Atom (SStr text))]))"

section \<open>Example inputs\<close>

text \<open>
  A runtime for the examples. Its \<open>py_lower\<close> and \<open>py_strip\<close> are Python's on ASCII
  strings; the serialiser and \<^verbatim>\<open>str\<close> of a float or a container are
  placeholders, and no example depends on what they return. Its clock stands at noon of
  30 June 2024 and knows the day 365 days before.
\<close>

definition ascii_lower :: "string \<Rightarrow> string" where
  "ascii_lower s =
     map (\<lambda>c. case map_of (zip ''ABCDEFGHIJKLMNOPQRSTUVWXYZ'' ''abcdefghijklmnopqrstuvwxyz'') c of
                None \<Rightarrow> c
              | Some l \<Rightarrow> l) s"

definition ascii_space :: "char \<Rightarrow> bool" where
  "ascii_space c = (c \<in> set [CHR '' '', CHR 0x09, CHR 0x0A, CHR 0x0B, CHR 0x0C, CHR 0x0D])"

definition ascii_strip :: "string \<Rightarrow> string" where
  "ascii_strip s = rev (dropWhile ascii_space (rev (dropWhile ascii_space s)))"

definition demo_runtime :: "string runtime" where
  "demo_runtime =
     \<lparr>json_dumps = (\<lambda>opts v. ''{}''),
      py_str = (\<lambda>v. ''?''),
      py_lower = ascii_lower,
      py_strip = ascii_strip,
      now = ''2024-06-30 12:00'',
      minus_days = (\<lambda>t n. if t = ''2024-06-30 12:00'' \<and> n = 365 then ''2023-07-01 12:00'' else t),
      strftime = (\<lambda>t f. take 10 t)\<rparr>"

text \<open>Two quote records; the second has no price.\<close>

definition demo_rows :: "(string \<times> pyval) list list" where
  "demo_rows =
     [[(''name'', Atom (SStr ''AAPL'')), (''price'', Atom (SInt 185))],
      [(''name'', Atom (SStr ''GOOGL''))]]"

text \<open>
  A library for the examples, in the manner of the test suite's mock: a result whose
  \<^verbatim>\<open>to_dict\<close> gives its records. It knows the symbol \<^verbatim>\<open>AAPL\<close>, raises for
  \<^verbatim>\<open>DOWN\<close> and has nothing on other symbols; its MACD raises.
\<close>

definition mock_result :: "row list \<Rightarrow> obb_result" where
  "mock_result rows = \<lparr>results = records_val rows, to_dict = Inr rows\<rparr>"

definition demo_lookup :: "row list \<Rightarrow> string \<Rightarrow> pyexn + obb_result" where
  "demo_lookup rows symb =
     (if symb = ''AAPL'' then Inr (mock_result rows)
      else if symb = ''DOWN'' then Inl (ExternalError ''connection refused'')
      else Inr (mock_result []))"

definition demo_history :: "row list" where
  "demo_history = [[(''date'', SStr ''2024-01-02''), (''close'', SInt 181)]]"

definition demo_obb :: obb where
  "demo_obb =
     \<lparr>quote = (\<lambda>symb prov.
        demo_lookup [[(''symbol'', SStr ''AAPL''), (''price'', SInt 185)]] symb),
      historical = (\<lambda>kwargs.
        demo_lookup demo_history
          (str_of demo_runtime (Atom (dict_get kwargs ''symbol'')))),
      company = (\<lambda>kwargs.
        demo_lookup [[(''title'', SStr ''Apple stock rises'')]]
          (str_of demo_runtime (Atom (dict_get kwargs ''symbol'')))),
      rsi = (\<lambda>data n. Inr (mock_result [[(''close_RSI_14'', SInt 55)]])),
      macd = (\<lambda>data. Inl (ExternalError ''macd failed'')),
      sma = (\<lambda>data n. Inr (mock_result [[(''close_SMA_14'', SInt 182)]])),
      ema = (\<lambda>data n. Inr (mock_result [[(''close_EMA_14'', SInt 183)]])),
      bbands = (\<lambda>data n. Inr (mock_result [])),
      adx = (\<lambda>data n. Inr (mock_result [[(''ADX_14'', SInt 30)]])),
      stoch = (\<lambda>data. Inr (mock_result [[(''STOCHk_14_3_3'', SInt 85), (''STOCHd_14_3_3'', SInt 82)]]))\<rparr>"

definition demo_args :: "string \<Rightarrow> cli_args" where
  "demo_args symb =
     \<lparr>symbol = symb, provider = ''yfinance'', format = ''table'', start = None,
      end_arg = None, interval = Some ''1d'', limit = 10,
      indicators = ''rsi, MACD,sma,foo'', period = 14\<rparr>"

section \<open>Facts about the operators\<close>

lemma py_cmp_numbers:
  "num_of a = Some x \<Longrightarrow> num_of b = Some y \<Longrightarrow> py_cmp opr a b = Inr (cmp_real opr x y)"
  by (cases a; cases b) auto

lemma bit_length_upper: "n < 2 ^ bit_length n"
proof (induction n rule: bit_length.induct)
  case (1 n)
  show ?case
  proof (cases "n = 0")
    case True
    then show ?thesis by (simp add: bit_length.simps)
  next
    case False
    then have "n div 2 < 2 ^ bit_length (n div 2)"
      using 1 by simp
    then have "n < 2 * 2 ^ bit_length (n div 2)"
      by linarith
    then show ?thesis
      using False by (simp add: bit_length.simps [of n])
  qed
qed

lemma bit_length_lower: "n \<noteq> 0 \<Longrightarrow> 2 ^ (bit_length n - 1) \<le> n"
proof (induction n rule: bit_length.induct)
  case (1 n)
  show ?case
  proof (cases "n div 2 = 0")
    case True
    then have "bit_length n = 1"
      using 1(2) by (simp add: bit_length.simps [of n] bit_length.simps [of 0])
    then show ?thesis
      using 1(2) by simp
  next
    case False
    then have "2 ^ (bit_length (n div 2) - 1) \<le> n div 2"
      using 1 by simp
    moreover have "bit_length (n div 2) \<noteq> 0"
      using False by (simp add: bit_length.simps [of "n div 2"])
    moreover have "bit_length n = Suc (bit_length (n div 2))"
      using 1(2) by (simp add: bit_length.simps [of n])
    ultimately have "2 ^ (bit_length n - 1) \<le> 2 * (n div 2)"
      by (cases "bit_length (n div 2)") simp_all
    then show ?thesis
      by linarith
  qed
qed

lemma bit_length_le: "n < 2 ^ k \<Longrightarrow> bit_length n \<le> k"
proof (rule ccontr)
  assume n: "n < 2 ^ k" and b: "\<not> bit_length n \<le> k"
  have k: "k \<le> bit_length n - 1"
    using b by simp
  have "n \<noteq> 0"
  proof
    assume "n = 0"
    then have "bit_length n = 0"
      by (simp add: bit_length.simps [of 0])
    then show False
      using b by simp
  qed
  have "(2::nat) ^ k \<le> 2 ^ (bit_length n - 1)"
    using k by (rule power_increasing) simp
  also have "\<dots> \<le> n"
    using \<open>n \<noteq> 0\<close> by (rule bit_length_lower)
  finally show False
    using n by simp
qed

lemma bit_length_eq: "2 ^ k \<le> n \<Longrightarrow> n < 2 ^ Suc k \<Longrightarrow> bit_length n = Suc k"
proof -
  assume lo: "2 ^ k \<le> n" and hi: "n < 2 ^ Suc k"
  have "bit_length n \<le> Suc k"
    using hi by (rule bit_length_le)
  moreover have "\<not> bit_length n \<le> k"
  proof
    assume "bit_length n \<le> k"
    then have "(2::nat) ^ bit_length n \<le> 2 ^ k"
      by (simp add: power_increasing)
    then show False
      using bit_length_upper [of n] lo by linarith
  qed
  ultimately show ?thesis by linarith
qed

lemma py_float_exact:
  assumes "\<bar>i\<bar> \<le> 2 ^ 53"
  shows "py_float i = Inr (of_int i)"
proof (cases "\<bar>i\<bar> = 2 ^ 53")
  case True
  define p :: nat where "p = 2 ^ 53"
  have a: "nat \<bar>i\<bar> = p"
    using True by (simp add: p_def)
  have n: "bit_length p = Suc 53"
    unfolding p_def by (rule bit_length_eq) simp_all
  have half: "p mod 2 = 0" "p div 2 * 2 = p"
    by (simp_all add: p_def)
  have small: "\<not> 2 ^ 1024 \<le> p"
    by (simp add: p_def)
  have "sgn i * int p = i"
    using True by (cases "i < 0") (simp_all add: sgn_if p_def)
  then have sg: "real_of_int (sgn i) * real p = real_of_int i"
    by (metis of_int_mult of_int_of_nat_eq)
  show ?thesis
    using small by (simp add: py_float_def a n Let_def half sg)
next
  case False
  then have "\<bar>i\<bar> < 2 ^ 53"
    using assms by linarith
  then have "nat \<bar>i\<bar> < 2 ^ 53"
    by (simp add: nat_less_iff)
  then have "bit_length (nat \<bar>i\<bar>) \<le> 53"
    by (rule bit_length_le)
  then show ?thesis
    by (simp add: py_float_def Let_def)
qed

lemma py_float_overflow:
  assumes "2 ^ 1024 \<le> \<bar>i\<bar>"
  shows "py_float i = Inl (OverflowError ''int too large to convert to float'')"
proof -
  define a where "a = nat \<bar>i\<bar>"
  define n where "n = bit_length a"
  define u :: nat where "u = 2 ^ (n - 53)"
  have a: "2 ^ 1024 \<le> a"
    using assms by (simp add: a_def le_nat_iff)
  have n: "1025 \<le> n"
  proof (rule ccontr)
    assume "\<not> 1025 \<le> n"
    then have "n \<le> 1024"
      by simp
    then have "(2::nat) ^ n \<le> 2 ^ 1024"
      by (rule power_increasing) simp
    then show False
      using bit_length_upper [of a] a unfolding n_def by linarith
  qed
  have "a \<noteq> 0"
    using a by auto
  then have lo: "2 ^ (n - 1) \<le> a"
    unfolding n_def by (rule bit_length_lower)
  have "n - 1 = 52 + (n - 53)"
    using n by simp
  then have split: "(2::nat) ^ (n - 1) = 2 ^ 52 * u"
    by (simp only: u_def power_add)
  have "u > 0"
    by (simp add: u_def)
  have "2 ^ 52 \<le> a div u"
  proof -
    have "2 ^ 52 * u div u \<le> a div u"
      using lo unfolding split by (rule div_le_mono)
    then show ?thesis
      using \<open>u > 0\<close> by simp
  qed
  then have "2 ^ 52 * u \<le> a div u * u"
    by simp
  moreover have "(2::nat) ^ 1024 \<le> 2 ^ (n - 1)"
  proof (rule power_increasing)
    show "1024 \<le> n - 1"
      using n by simp
  qed simp
  ultimately have q: "2 ^ 1024 \<le> a div u * u"
    unfolding split by linarith
  then have q1: "2 ^ 1024 \<le> (a div u + 1) * u"
    by (simp add: add_mult_distrib)
  have "\<not> n \<le> 53"
    using n by simp
  then show ?thesis
    using q q1 unfolding py_float_def a_def [symmetric] n_def [symmetric] Let_def u_def [symmetric]
    by (simp del: power_numeral)
qed

lemma py_sub_numbers:
  assumes "num_of a = Some x" and "num_of b = Some y" and "spec_exact_difference a b"
  shows "\<exists>r. py_sub a b = Inr r \<and> num_of r = Some (x - y)"
  using assms
  by (cases a; cases b) (auto simp: py_sub_def spec_exact_difference_def py_float_exact)

lemma py_sub_floats:
  "py_sub (SFloat x) (SFloat y) = Inr (SFloat (x - y))"
  by (simp add: py_sub_def)

lemma py_float_rounds_tie: "py_float (2 ^ 53 + 1) = Inr (2 ^ 53)"
proof -
  define a :: nat where "a = 2 ^ 53 + 1"
  have n: "bit_length a = Suc 53"
    unfolding a_def by (rule bit_length_eq) simp_all
  have a: "nat \<bar>2 ^ 53 + 1 :: int\<bar> = a"
    by (simp add: a_def)
  have parts: "a mod 2 = 1" "a div 2 = 2 ^ 52" "\<not> 2 ^ 1024 \<le> a div 2 * 2"
    by (simp_all add: a_def)
  have "real (a div 2 * 2) = 2 ^ 53"
    by (simp add: a_def)
  then show ?thesis
    unfolding py_float_def a Let_def n using parts
    by (simp del: power_numeral)
qed

lemma num_of_not_None: "num_of a = Some x \<Longrightarrow> a \<noteq> SNone"
  by auto

section \<open>Facts about strings and the field extractor\<close>

lemma starts_with_iff: "starts_with p s \<longleftrightarrow> (\<exists>b. s = p @ b)"
  by (induction p s rule: starts_with.induct) auto

lemma py_in_iff: "py_in p s \<longleftrightarrow> (\<exists>a b. s = a @ p @ b)"
proof (induction s)
  case Nil
  then show ?case by auto
next
  case (Cons c cs)
  have "(\<exists>a b. c # cs = a @ p @ b) \<longleftrightarrow> (\<exists>b. c # cs = p @ b) \<or> (\<exists>a b. cs = a @ p @ b)"
    by (auto simp: Cons_eq_append_conv)
  with Cons show ?case
    by (simp add: starts_with_iff del: starts_with.simps)
qed

lemma find_indicator_key_first:
  assumes "\<forall>k' \<in> fst ` set pre. \<not> py_in p k'" and "py_in p k"
  shows "find_indicator_key (pre @ (k, v) # post) p = Some k"
  using assms by (induction pre) (auto simp: find_indicator_key_def)

lemma find_indicator_key_none:
  "find_indicator_key d p = None \<longleftrightarrow> (\<forall>k \<in> fst ` set d. \<not> py_in p k)"
  by (auto simp: find_indicator_key_def find_None_iff)

lemma dict_get_first:
  "k \<notin> fst ` set pre \<Longrightarrow> dict_get (pre @ (k, v) # post) k = v"
  by (induction pre) (auto simp: dict_get_def)

section \<open>Facts about the table\<close>

lemma collect_Inr: "collect (map (\<lambda>x. Inr (f x)) xs) = Inr (map f xs)"
  by (induction xs) auto

lemma get_cell_dict: "get_cell rt (PDict d) h = Inr (spec_cell rt d h)"
  by (simp add: spec_cell_def split: option.split)

lemma table_rows_dicts:
  "table_rows rt hs (map PDict rows) = Inr (map (\<lambda>r. map (spec_cell rt r) hs) rows)"
proof -
  have row: "collect (map (\<lambda>h. get_cell rt (PDict r) h) hs) = Inr (map (spec_cell rt r) hs)"
    for r
  proof -
    have "map (\<lambda>h. get_cell rt (PDict r) h) hs = map (\<lambda>h. Inr (spec_cell rt r h)) hs"
      by (simp add: get_cell_dict del: get_cell.simps)
    then show ?thesis
      by (simp only: collect_Inr)
  qed
  have "map (\<lambda>row. collect (map (\<lambda>h. get_cell rt row h) hs)) (map PDict rows) =
      map (\<lambda>r. Inr (map (spec_cell rt r) hs)) rows"
    by (simp add: row comp_def del: get_cell.simps)
  then show ?thesis
    unfolding table_rows_def by (simp only: collect_Inr)
qed

lemma py_max_Max: "max a (py_max xs 0) = Max (set (a # xs))"
proof (cases xs)
  case Nil
  then show ?thesis by simp
next
  case (Cons x ys)
  have "py_max xs 0 = Max (set xs)"
    unfolding Cons py_max.simps by (rule Max.set_eq_fold [symmetric])
  then show ?thesis
    using Cons by simp
qed

lemma col_widths_cells:
  "col_widths hs (map (\<lambda>r. map (c r) hs) rows) =
     map (\<lambda>h. Max (set (length h # map (\<lambda>r. length (c r h)) rows))) hs"
proof (rule nth_equalityI)
  show "length (col_widths hs (map (\<lambda>r. map (c r) hs) rows)) =
      length (map (\<lambda>h. Max (set (length h # map (\<lambda>r. length (c r h)) rows))) hs)"
    by (simp add: col_widths_def)
next
  fix i
  assume "i < length (col_widths hs (map (\<lambda>r. map (c r) hs) rows))"
  then have i: "i < length hs"
    by (simp add: col_widths_def)
  then show "col_widths hs (map (\<lambda>r. map (c r) hs) rows) ! i =
      map (\<lambda>h. Max (set (length h # map (\<lambda>r. length (c r h)) rows))) hs ! i"
    by (simp add: col_widths_def nth_enumerate_eq py_max_Max comp_def del: set_simps list.set)
qed

lemma header_line_widths:
  "header_line hs (map w hs) = join '' | '' (map (\<lambda>h. ljust h (w h)) hs)"
proof -
  have "map (\<lambda>(i, h). ljust h (map w hs ! i)) (enumerate 0 hs) = map (\<lambda>h. ljust h (w h)) hs"
    by (rule nth_equalityI) (simp_all add: nth_enumerate_eq)
  then show ?thesis
    by (simp add: header_line_def)
qed

lemma padded_cells_widths:
  "padded_cells hs (map w hs) (map c hs) = map (\<lambda>h. ljust (c h) (w h)) hs"
  unfolding padded_cells_def by (rule nth_equalityI) simp_all

lemma data_lines_widths:
  "data_lines hs (map w hs) (map (\<lambda>r. map (c r) hs) rows) =
     map (\<lambda>r. join '' | '' (map (\<lambda>h. ljust (c r h) (w h)) hs)) rows"
  by (simp add: data_lines_def padded_cells_widths comp_def)

lemma separator_widths:
  "separator (map w hs) = join ''-+-'' (map (\<lambda>h. replicate (w h) CHR ''-'') hs)"
  by (simp add: separator_def comp_def)

lemma format_table_dicts:
  assumes "rows \<noteq> []"
  shows "format_table rt (map PDict rows) = Inr (spec_table rt rows)"
proof -
  let ?hs = "map fst (hd rows)"
  let ?w = "spec_column_width rt rows"
  have k: "keys_of (hd (map PDict rows)) = Inr ?hs"
    using assms by (simp add: hd_map)
  have w: "col_widths ?hs (map (\<lambda>r. map (spec_cell rt r) ?hs) rows) = map ?w ?hs"
    unfolding col_widths_cells spec_column_width_def ..
  show ?thesis
    unfolding format_table_def k table_rows_dicts spec_table_def Let_def
    by (simp only: sum.case w data_lines_widths header_line_widths separator_widths
        append.simps)
qed

lemma format_output_table_dicts:
  assumes "rows \<noteq> []"
  shows "format_output rt (PList (map PDict rows)) ''table'' = format_table rt (map PDict rows)"
  using assms by (cases rows) (simp_all add: format_output_def)

section \<open>Facts about the handlers\<close>

lemma format_output_records: "\<exists>text. format_output rt (records_val data) fmt = Inr text"
proof (cases "fmt = ''table'' \<and> data \<noteq> []")
  case True
  define rows where "rows = map (map (\<lambda>(k, v). (k, Atom v))) data"
  have rv: "records_val data = PList (map PDict rows)"
    by (simp add: records_val_def row_val_def rows_def comp_def)
  have ne: "rows \<noteq> []"
    using True by (simp add: rows_def)
  have "format_output rt (PList (map PDict rows)) ''table'' = Inr (spec_table rt rows)"
    by (simp only: format_output_table_dicts [OF ne] format_table_dicts [OF ne])
  then show ?thesis
    using True by (simp only: rv) blast
next
  case False
  then show ?thesis
    by (cases data) (auto simp: format_output_def records_val_def)
qed

lemma print_result_contract:
  "spec_handler_contract rt (symbol args) (format args) msg call (print_result rt args msg call)"
proof -
  have "\<exists>text. format_output rt (records_val data) (format args) = Inr text \<and>
      printed (case format_output rt (records_val data) (format args) of
                 Inl e \<Rightarrow> exit_with_error rt (exn_str e) (symbol args)
               | Inr text \<Rightarrow> \<lparr>printed = [text], status = 0\<rparr>) = [text] \<and>
      status (case format_output rt (records_val data) (format args) of
                 Inl e \<Rightarrow> exit_with_error rt (exn_str e) (symbol args)
               | Inr text \<Rightarrow> \<lparr>printed = [text], status = 0\<rparr>) = 0" for data
    using format_output_records [of rt data "format args"] by auto
  then show ?thesis
    unfolding spec_handler_contract_def print_result_def
    by (auto simp: spec_error_report_def exit_with_error_def error_object_def)
qed

lemma format_output_dict: "\<exists>text. format_output rt (PDict d) fmt = Inr text"
  by (simp add: format_output_def)

lemma indicator_step_spec:
  "indicator_step ob args hist n =
     (case spec_indicator_call ob args hist n of
        None \<Rightarrow> Inr (Some (n, spec_error_entry (''Unsupported indicator: '' @ n)))
      | Some (Inl e) \<Rightarrow> Inl e
      | Some (Inr r) \<Rightarrow>
          if truthy (results r) then
            (case to_dict r of
               Inl e \<Rightarrow> Inl e
             | Inr recs \<Rightarrow>
                 (case spec_classifier args n (latest_of (last10 recs)) of
                    None \<Rightarrow> Inr (Some (n, spec_entry args n (last10 recs) None))
                  | Some (Inl e) \<Rightarrow> Inl e
                  | Some (Inr text) \<Rightarrow> Inr (Some (n, spec_entry args n (last10 recs) (Some text)))))
          else Inr None)"
proof -
  consider "n = ''rsi''" | "n = ''macd''" | "n = ''sma''" | "n = ''ema''" | "n = ''bbands''"
    | "n = ''adx''" | "n = ''stoch''" | "n \<notin> set spec_supported_indicators"
    by (auto simp: spec_supported_indicators_def)
  then show ?thesis
  proof cases
    case 1
    then show ?thesis
      by (simp add: indicator_step_def spec_indicator_call_def with_records_def spec_classifier_def
          spec_entry_def spec_latest_fields_def spec_echoes_period_def Let_def
          split: sum.split)
  next
    case 2
    then show ?thesis
      by (simp add: indicator_step_def spec_indicator_call_def with_records_def spec_classifier_def
          spec_entry_def spec_latest_fields_def spec_echoes_period_def Let_def
          split: sum.split)
  next
    case 3
    then show ?thesis
      by (simp add: indicator_step_def spec_indicator_call_def with_records_def spec_classifier_def
          spec_entry_def spec_latest_fields_def spec_echoes_period_def Let_def
          split: sum.split)
  next
    case 4
    then show ?thesis
      by (simp add: indicator_step_def spec_indicator_call_def with_records_def spec_classifier_def
          spec_entry_def spec_latest_fields_def spec_echoes_period_def Let_def
          split: sum.split)
  next
    case 5
    then show ?thesis
      by (simp add: indicator_step_def spec_indicator_call_def with_records_def spec_classifier_def
          spec_entry_def spec_latest_fields_def spec_echoes_period_def Let_def
          split: sum.split)
  next
    case 6
    then show ?thesis
      by (simp add: indicator_step_def spec_indicator_call_def with_records_def spec_classifier_def
          spec_entry_def spec_latest_fields_def spec_echoes_period_def Let_def
          split: sum.split)
  next
    case 7
    then show ?thesis
      by (simp add: indicator_step_def spec_indicator_call_def with_records_def spec_classifier_def
          spec_entry_def spec_latest_fields_def spec_echoes_period_def Let_def
          split: sum.split)
  next
    case 8
    then show ?thesis
      by (simp add: indicator_step_def spec_indicator_call_def spec_supported_indicators_def
          spec_error_entry_def)
  qed
qed

lemma indicator_step_key:
  "indicator_step ob args hist n = Inr (Some (k, v)) \<Longrightarrow> k = n"
  by (auto simp: indicator_step_spec split: option.splits sum.splits if_splits)

lemma map_of_indicator_turn:
  "map_of (indicator_turn ob args hist n entries) =
     (case indicator_step ob args hist n of
        Inl e \<Rightarrow> (map_of entries)(n \<mapsto> spec_error_entry (exn_str e))
      | Inr None \<Rightarrow> map_of entries
      | Inr (Some (k, v)) \<Rightarrow> (map_of entries)(n \<mapsto> v))"
  by (auto simp: indicator_turn_def spec_error_entry_def update_conv'
      dest: indicator_step_key split: sum.splits option.splits)

lemma map_of_fold_indicator_turn:
  "map_of (fold (indicator_turn ob args hist) names acc) n =
     (if n \<in> set names then
        (case indicator_step ob args hist n of
           Inl e \<Rightarrow> Some (spec_error_entry (exn_str e))
         | Inr None \<Rightarrow> map_of acc n
         | Inr (Some (k, v)) \<Rightarrow> Some v)
      else map_of acc n)"
proof (induction names arbitrary: acc)
  case Nil
  then show ?case by simp
next
  case (Cons m names)
  show ?case
    by (simp add: Cons.IH map_of_indicator_turn split: sum.split option.split)
qed

lemma indicator_entry:
  "map_of (indicator_entries rt ob args hist) n =
     (if n \<in> set (indicator_names rt args) then
        (case indicator_step ob args hist n of
           Inl e \<Rightarrow> Some (spec_error_entry (exn_str e))
         | Inr None \<Rightarrow> None
         | Inr (Some (k, v)) \<Rightarrow> Some v)
      else None)"
  by (simp add: indicator_entries_def map_of_fold_indicator_turn split: sum.split option.split)

lemma indicator_step_historical:
  "indicator_step (ob\<lparr>historical := h\<rparr>) args hist n = indicator_step ob args hist n"
  by (simp add: indicator_step_def)

lemma indicator_entries_historical:
  "indicator_entries rt (ob\<lparr>historical := h\<rparr>) args hist = indicator_entries rt ob args hist"
proof -
  have "indicator_turn (ob\<lparr>historical := h\<rparr>) args hist = indicator_turn ob args hist"
    by (intro ext) (simp add: indicator_turn_def indicator_step_historical)
  then show ?thesis
    by (simp add: indicator_entries_def)
qed

lemma technical_report_historical:
  "technical_report rt (ob\<lparr>historical := h\<rparr>) args hist = technical_report rt ob args hist"
  by (simp add: technical_report_def indicator_entries_historical)

lemma cmd_technical_fetch:
  "cmd_technical rt (ob\<lparr>historical := h\<rparr>) args =
     (case h (technical_kwargs rt args) of
        Inl e \<Rightarrow> exit_with_error rt (exn_str e) (symbol args)
      | Inr history \<Rightarrow>
          if \<not> truthy (results history) then
            exit_with_error rt ''No historical data for technical analysis'' (symbol args)
          else
            (case format_output rt (technical_report rt ob args (results history))
                    (format args) of
               Inl e \<Rightarrow> exit_with_error rt (exn_str e) (symbol args)
             | Inr text \<Rightarrow> \<lparr>printed = [text], status = 0\<rparr>))"
  by (simp add: cmd_technical_def technical_report_historical split: sum.split)

lemma last10_suffix: "\<exists>older. recs = older @ last10 recs"
  unfolding last10_def by (metis append_take_drop_id)

lemma last10_length: "length (last10 recs) = min 10 (length recs)"
  by (simp add: last10_def)

section \<open>Facts about the example inputs\<close>

lemma demo_names:
  "indicator_names demo_runtime (demo_args ''AAPL'') = [''rsi'', ''macd'', ''sma'', ''foo'']"
  by (simp add: indicator_names_def demo_runtime_def demo_args_def ascii_lower_def
      ascii_strip_def ascii_space_def)

lemma demo_historical:
  "historical demo_obb (technical_kwargs demo_runtime (demo_args ''AAPL'')) =
     Inr (mock_result demo_history)"
  by (simp add: demo_obb_def technical_kwargs_def demo_args_def demo_lookup_def dict_get_def)

lemma demo_history_truthy: "truthy (results (mock_result demo_history))"
  by (simp add: mock_result_def records_val_def demo_history_def)

section \<open>The claims about the classifiers\<close>

text \<open>
  C3. The RSI classifier never fails on \<^verbatim>\<open>None\<close> or a number and returns one of five
  different captions: "cannot compute" for \<^verbatim>\<open>None\<close>, and for a number of value \<open>x\<close> the
  overbought caption when \<open>x \<ge> 70\<close>, the oversold caption when \<open>x \<le> 30\<close>, the bullish-bias
  caption when \<open>50 \<le> x < 70\<close> and the bearish-bias caption when \<open>30 < x < 50\<close>.
\<close>

theorem interpret_rsi_classifies:
  "interpret_rsi SNone = Inr caption_cannot_compute \<and>
   (\<forall>v x. num_of v = Some x \<longrightarrow>
      (70 \<le> x \<longrightarrow> interpret_rsi v = Inr rsi_overbought) \<and>
      (x \<le> 30 \<longrightarrow> interpret_rsi v = Inr rsi_oversold) \<and>
      (50 \<le> x \<and> x < 70 \<longrightarrow> interpret_rsi v = Inr rsi_strong) \<and>
      (30 < x \<and> x < 50 \<longrightarrow> interpret_rsi v = Inr rsi_weak)) \<and>
   distinct [caption_cannot_compute, rsi_overbought, rsi_oversold, rsi_strong, rsi_weak]"
proof (intro conjI allI impI)
  show "interpret_rsi SNone = Inr caption_cannot_compute"
    by (simp add: interpret_rsi_def)
next
  show "distinct [caption_cannot_compute, rsi_overbought, rsi_oversold, rsi_strong, rsi_weak]"
    by (simp add: caption_cannot_compute_def rsi_overbought_def rsi_oversold_def
        rsi_strong_def rsi_weak_def)
next
  fix v x
  assume n: "num_of v = Some x"
  have ne: "v \<noteq> SNone"
    using n by (rule num_of_not_None)
  have c: "py_cmp opr v (SInt k) = Inr (cmp_real opr x (of_int k))" for opr k
    using n by (simp add: py_cmp_numbers)
  note unfold = interpret_rsi_def py_if_def c
  {
    assume "70 \<le> x"
    then show "interpret_rsi v = Inr rsi_overbought"
      using ne by (simp add: unfold del: py_cmp.simps)
  }
  {
    assume "x \<le> 30"
    then show "interpret_rsi v = Inr rsi_oversold"
      using ne by (simp add: unfold del: py_cmp.simps)
  }
  {
    assume "50 \<le> x \<and> x < 70"
    then show "interpret_rsi v = Inr rsi_strong"
      using ne by (simp add: unfold del: py_cmp.simps)
  }
  {
    assume "30 < x \<and> x < 50"
    then show "interpret_rsi v = Inr rsi_weak"
      using ne by (simp add: unfold del: py_cmp.simps)
  }
qed

text \<open>C3 at 75, 25, 60, 40 and at the three thresholds.\<close>

theorem interpret_rsi_classifies_witness:
  "interpret_rsi (SInt 75) = Inr rsi_overbought \<and>
   interpret_rsi (SFloat 25) = Inr rsi_oversold \<and>
   interpret_rsi (SInt 60) = Inr rsi_strong \<and>
   interpret_rsi (SFloat 40) = Inr rsi_weak \<and>
   interpret_rsi (SInt 70) = Inr rsi_overbought \<and>
   interpret_rsi (SInt 30) = Inr rsi_oversold \<and>
   interpret_rsi (SInt 50) = Inr rsi_strong"
proof -
  note c = interpret_rsi_classifies [THEN conjunct2, THEN conjunct1, rule_format]
  have "interpret_rsi (SInt 75) = Inr rsi_overbought"
    using c [of "SInt 75" 75] by simp
  moreover have "interpret_rsi (SFloat 25) = Inr rsi_oversold"
    using c [of "SFloat 25" 25] by simp
  moreover have "interpret_rsi (SInt 60) = Inr rsi_strong"
    using c [of "SInt 60" 60] by simp
  moreover have "interpret_rsi (SFloat 40) = Inr rsi_weak"
    using c [of "SFloat 40" 40] by simp
  moreover have "interpret_rsi (SInt 70) = Inr rsi_overbought"
    using c [of "SInt 70" 70] by simp
  moreover have "interpret_rsi (SInt 30) = Inr rsi_oversold"
    using c [of "SInt 30" 30] by simp
  moreover have "interpret_rsi (SInt 50) = Inr rsi_strong"
    using c [of "SInt 50" 50] by simp
  ultimately show ?thesis by blast
qed

text \<open>
  C4. The MACD classifier returns "cannot compute" when \<^verbatim>\<open>macd\<close> or \<^verbatim>\<open>signal\<close> is
  absent. Otherwise, for numbers of values \<open>m\<close> and \<open>s\<close>, with \<open>h\<close> the given histogram,
  or \<open>m - s\<close> when the histogram is absent, it returns the caption of the specification:
  golden cross when \<open>m > s\<close> and \<open>h > 0\<close>, death cross when \<open>m < s\<close> and \<open>h < 0\<close>, above
  zero when neither holds and \<open>m > 0\<close>, below zero otherwise. The derived histogram is
  \<open>m - s\<close> for two ints and for floats and ints of at most \<open>2 ^ 53\<close> in absolute value;
  in every case in which the subtraction does not raise, the caption is the one for the
  value Python computes for \<^verbatim>\<open>macd - signal\<close>.
\<close>

theorem interpret_macd_classifies:
  "(dict_get d ''macd'' = SNone \<or> dict_get d ''signal'' = SNone \<longrightarrow>
      interpret_macd d = Inr caption_cannot_compute) \<and>
   (\<forall>m s h.
      num_of (dict_get d ''macd'') = Some m \<and> num_of (dict_get d ''signal'') = Some s \<and>
      (if dict_get d ''histogram'' = SNone
       then spec_exact_difference (dict_get d ''macd'') (dict_get d ''signal'') \<and> h = m - s
       else num_of (dict_get d ''histogram'') = Some h) \<longrightarrow>
      interpret_macd d = Inr (spec_macd_caption m s h)) \<and>
   (\<forall>m s r h.
      num_of (dict_get d ''macd'') = Some m \<and> num_of (dict_get d ''signal'') = Some s \<and>
      dict_get d ''histogram'' = SNone \<and>
      py_sub (dict_get d ''macd'') (dict_get d ''signal'') = Inr r \<and> num_of r = Some h \<longrightarrow>
      interpret_macd d = Inr (spec_macd_caption m s h)) \<and>
   distinct [caption_cannot_compute, macd_golden_cross, macd_death_cross, macd_above_zero,
     macd_below_zero]"
proof -
  have absent: "interpret_macd d = Inr caption_cannot_compute"
    if "dict_get d ''macd'' = SNone \<or> dict_get d ''signal'' = SNone"
    using that by (auto simp: interpret_macd_def Let_def)
  have core: "interpret_macd d = Inr (spec_macd_caption m s h)"
    if m: "num_of (dict_get d ''macd'') = Some m"
      and s: "num_of (dict_get d ''signal'') = Some s"
      and r: "(if dict_get d ''histogram'' = SNone
               then py_sub (dict_get d ''macd'') (dict_get d ''signal'')
               else Inr (dict_get d ''histogram'')) = Inr r"
      and h: "num_of r = Some h"
    for m s r h
  proof -
    have ne: "dict_get d ''macd'' \<noteq> SNone" "dict_get d ''signal'' \<noteq> SNone"
      using m s by (auto dest: num_of_not_None)
    have c1: "py_cmp opr (dict_get d ''macd'') (dict_get d ''signal'') = Inr (cmp_real opr m s)"
      for opr
      using m s by (simp add: py_cmp_numbers)
    have c2: "py_cmp opr r (SInt 0) = Inr (cmp_real opr h 0)" for opr
      using h by (simp add: py_cmp_numbers)
    have c3: "py_cmp opr (dict_get d ''macd'') (SInt 0) = Inr (cmp_real opr m 0)" for opr
      using m by (simp add: py_cmp_numbers)
    show ?thesis
      using ne unfolding interpret_macd_def Let_def r
      by (simp add: c1 c2 c3 py_if_def py_and_def spec_macd_caption_def del: py_cmp.simps)
  qed
  have given: "interpret_macd d = Inr (spec_macd_caption m s h)"
    if a: "num_of (dict_get d ''macd'') = Some m \<and> num_of (dict_get d ''signal'') = Some s \<and>
      (if dict_get d ''histogram'' = SNone
       then spec_exact_difference (dict_get d ''macd'') (dict_get d ''signal'') \<and> h = m - s
       else num_of (dict_get d ''histogram'') = Some h)"
    for m s h
  proof (cases "dict_get d ''histogram'' = SNone")
    case True
    then have "spec_exact_difference (dict_get d ''macd'') (dict_get d ''signal'')"
      and "h = m - s"
      using a by simp_all
    then obtain r where "py_sub (dict_get d ''macd'') (dict_get d ''signal'') = Inr r"
      and "num_of r = Some h"
      using a py_sub_numbers [of "dict_get d ''macd''" m "dict_get d ''signal''" s]
      by blast
    then show ?thesis
      using a True by (intro core [of m s r h]) simp_all
  next
    case False
    then show ?thesis
      using a by (intro core [of m s "dict_get d ''histogram''" h]) simp_all
  qed
  have derived: "interpret_macd d = Inr (spec_macd_caption m s h)"
    if "num_of (dict_get d ''macd'') = Some m \<and> num_of (dict_get d ''signal'') = Some s \<and>
      dict_get d ''histogram'' = SNone \<and>
      py_sub (dict_get d ''macd'') (dict_get d ''signal'') = Inr r \<and> num_of r = Some h"
    for m s r h
    using that by (intro core [of m s r h]) simp_all
  have "distinct [caption_cannot_compute, macd_golden_cross, macd_death_cross, macd_above_zero,
     macd_below_zero]"
    by (simp add: caption_cannot_compute_def macd_golden_cross_def macd_death_cross_def
        macd_above_zero_def macd_below_zero_def)
  then show ?thesis
    using absent given derived by blast
qed

text \<open>
  C4 on the inputs of the test suite, on ints without histogram, on the two zero-line
  cases, and on an int of 54 bits with a float: \<open>2 ^ 53 + 1\<close> is converted to the float
  \<open>2 ^ 53\<close>, the derived histogram is zero, and the caption is the one above the zero
  line.
\<close>

theorem interpret_macd_classifies_witness:
  "interpret_macd [] = Inr caption_cannot_compute \<and>
   interpret_macd [(''macd'', SFloat 1.5), (''signal'', SFloat 1.0), (''histogram'', SFloat 0.5)]
     = Inr macd_golden_cross \<and>
   interpret_macd [(''macd'', SFloat (- 1.5)), (''signal'', SFloat (- 1.0)),
       (''histogram'', SFloat (- 0.5))]
     = Inr macd_death_cross \<and>
   interpret_macd [(''macd'', SInt 2), (''signal'', SInt 1)] = Inr macd_golden_cross \<and>
   interpret_macd [(''macd'', SInt 1), (''signal'', SInt 1), (''histogram'', SNone)]
     = Inr macd_above_zero \<and>
   interpret_macd [(''macd'', SInt (- 1)), (''signal'', SInt 1), (''histogram'', SInt 3)]
     = Inr macd_below_zero \<and>
   interpret_macd [(''macd'', SInt (2 ^ 53 + 1)), (''signal'', SFloat (2 ^ 53))]
     = Inr macd_above_zero"
proof -
  have "interpret_macd [] = Inr caption_cannot_compute"
    using interpret_macd_classifies [of "[]"] by (simp add: dict_get_def)
  moreover have "interpret_macd
      [(''macd'', SFloat 1.5), (''signal'', SFloat 1.0), (''histogram'', SFloat 0.5)]
     = Inr macd_golden_cross"
    using interpret_macd_classifies
      [of "[(''macd'', SFloat 1.5), (''signal'', SFloat 1.0), (''histogram'', SFloat 0.5)]",
       THEN conjunct2, THEN conjunct1, rule_format, of "1.5" "1.0" "0.5"]
    by (simp add: dict_get_def spec_macd_caption_def)
  moreover have "interpret_macd
      [(''macd'', SFloat (- 1.5)), (''signal'', SFloat (- 1.0)), (''histogram'', SFloat (- 0.5))]
     = Inr macd_death_cross"
    using interpret_macd_classifies
      [of "[(''macd'', SFloat (- 1.5)), (''signal'', SFloat (- 1.0)),
            (''histogram'', SFloat (- 0.5))]",
       THEN conjunct2, THEN conjunct1, rule_format, of "- 1.5" "- 1.0" "- 0.5"]
    by (simp add: dict_get_def spec_macd_caption_def)
  moreover have "interpret_macd [(''macd'', SInt 2), (''signal'', SInt 1)]
     = Inr macd_golden_cross"
    using interpret_macd_classifies
      [of "[(''macd'', SInt 2), (''signal'', SInt 1)]",
       THEN conjunct2, THEN conjunct1, rule_format, of 2 1 1]
    by (simp add: dict_get_def spec_macd_caption_def spec_exact_difference_def)
  moreover have "interpret_macd [(''macd'', SInt 1), (''signal'', SInt 1), (''histogram'', SNone)]
     = Inr macd_above_zero"
    using interpret_macd_classifies
      [of "[(''macd'', SInt 1), (''signal'', SInt 1), (''histogram'', SNone)]",
       THEN conjunct2, THEN conjunct1, rule_format, of 1 1 0]
    by (simp add: dict_get_def spec_macd_caption_def spec_exact_difference_def)
  moreover have "interpret_macd
      [(''macd'', SInt (- 1)), (''signal'', SInt 1), (''histogram'', SInt 3)]
     = Inr macd_below_zero"
    using interpret_macd_classifies
      [of "[(''macd'', SInt (- 1)), (''signal'', SInt 1), (''histogram'', SInt 3)]",
       THEN conjunct2, THEN conjunct1, rule_format, of "- 1" 1 3]
    by (simp add: dict_get_def spec_macd_caption_def)
  moreover have "interpret_macd [(''macd'', SInt (2 ^ 53 + 1)), (''signal'', SFloat (2 ^ 53))]
     = Inr macd_above_zero"
  proof -
    have "py_float 9007199254740993 = Inr 9007199254740992"
      using py_float_rounds_tie by simp
    then have "py_sub (SInt (2 ^ 53 + 1)) (SFloat (2 ^ 53)) = Inr (SFloat 0)"
      by (simp add: py_sub_def)
    then show ?thesis
      using interpret_macd_classifies
        [of "[(''macd'', SInt (2 ^ 53 + 1)), (''signal'', SFloat (2 ^ 53))]",
         THEN conjunct2, THEN conjunct2, THEN conjunct1, rule_format,
         of "2 ^ 53 + 1" "2 ^ 53" "SFloat 0" 0]
      by (simp add: dict_get_def spec_macd_caption_def)
  qed
  ultimately show ?thesis by blast
qed

text \<open>
  Beyond the double range the conversion raises, and so does the classifier: an int of
  310 digits with a float and no histogram.
\<close>

lemma interpret_macd_overflow:
  "interpret_macd [(''macd'', SInt (10 ^ 309)), (''signal'', SFloat 1)] =
     Inl (OverflowError ''int too large to convert to float'')"
proof -
  have "(2::int) ^ 1024 \<le> \<bar>10 ^ 309\<bar>"
    by simp
  then have "py_float (10 ^ 309) = Inl (OverflowError ''int too large to convert to float'')"
    by (rule py_float_overflow)
  then show ?thesis
    by (simp add: interpret_macd_def dict_get_def py_sub_def Let_def)
qed

section \<open>The claim about the field extractor\<close>

text \<open>
  The field extractor on every input but an empty first matching key: it returns the value
  of the first key that contains the pattern, and \<^verbatim>\<open>None\<close> when no key does.
\<close>

lemma get_indicator_value_first_match:
  assumes "\<forall>k' \<in> fst ` set pre. \<not> py_in p k'" and "py_in p k" and "k \<noteq> []"
  shows "get_indicator_value (pre @ (k, v) # post) p = v"
proof -
  have "k \<notin> fst ` set pre"
    using assms(1,2) by blast
  then show ?thesis
    using assms by (simp add: get_indicator_value_def find_indicator_key_first dict_get_first)
qed

lemma get_indicator_value_no_match:
  assumes "\<forall>k \<in> fst ` set d. \<not> py_in p k"
  shows "get_indicator_value d p = SNone"
  using assms find_indicator_key_none [of d p] by (simp add: get_indicator_value_def)

text \<open>
  C5. The field extractor is to return the value of the first key, in the dict's order,
  that contains the pattern, and \<^verbatim>\<open>None\<close> when no key does. The code tests the truth
  value of the key it found, not whether it found one: for the dict \<^verbatim>\<open>{"": 1.0}\<close> and
  the empty pattern the first key contains the pattern and has the value 1.0, and the
  extractor returns \<^verbatim>\<open>None\<close>.
\<close>

theorem get_indicator_value_empty_key:
  "py_in '''' '''' \<and>
   find_indicator_key [('''', SFloat 1)] '''' = Some '''' \<and>
   dict_get [('''', SFloat 1)] '''' = SFloat 1 \<and>
   get_indicator_value [('''', SFloat 1)] '''' = SNone"
  by (simp add: get_indicator_value_def find_indicator_key_def dict_get_def)

section \<open>The claims about the output formatter\<close>

text \<open>
  C8. In table mode a non-empty list of mappings is rendered as the table of the
  specification (\<open>spec_table\<close>): a header row of the first record's keys in their order,
  a separator row of dashes joined by \<^verbatim>\<open>-+-\<close>, and one row per record, every cell
  left-justified and padded to the width of its column, which is the maximum of the
  header's length and the lengths of the column's cells; columns are joined by
  \<^verbatim>\<open> | \<close> and rows by newlines. An empty list, a scalar and a single mapping are
  rendered by \<^verbatim>\<open>str\<close>.
\<close>

theorem format_output_table:
  "(rows \<noteq> [] \<longrightarrow>
      format_output rt (PList (map PDict rows)) ''table'' = Inr (spec_table rt rows)) \<and>
   format_output rt (PList []) ''table'' = Inr (str_of rt (PList [])) \<and>
   format_output rt (Atom a) ''table'' = Inr (str_of rt (Atom a)) \<and>
   format_output rt (PDict d) ''table'' = Inr (str_of rt (PDict d))"
proof (intro conjI impI)
  assume ne: "rows \<noteq> []"
  then obtain r rs where "rows = r # rs"
    by (cases rows) auto
  then have "format_output rt (PList (map PDict rows)) ''table'' = format_table rt (map PDict rows)"
    by (simp add: format_output_def)
  then show "format_output rt (PList (map PDict rows)) ''table'' = Inr (spec_table rt rows)"
    using ne by (simp add: format_table_dicts)
qed (simp_all add: format_output_def)

text \<open>C8 on two records, the second without a price.\<close>

lemma str_185: "str_int 185 = ''185''"
  by (simp add: str_int_def str_nat.simps)

lemma demo_table: "spec_table demo_runtime demo_rows =
   ''name  | price'' @ [CHR 0x0A] @ ''------+------'' @ [CHR 0x0A] @
   ''AAPL  | 185  '' @ [CHR 0x0A] @ ''GOOGL |      ''"
  by (simp add: spec_table_def demo_rows_def spec_column_width_def spec_cell_def ljust_def str_185)

theorem format_output_table_witness:
  "format_output demo_runtime (PList (map PDict demo_rows)) ''table'' =
     Inr (''name  | price'' @ [CHR 0x0A] @ ''------+------'' @ [CHR 0x0A] @
          ''AAPL  | 185  '' @ [CHR 0x0A] @ ''GOOGL |      '')"
proof -
  have ne: "demo_rows \<noteq> []"
    by (simp add: demo_rows_def)
  show ?thesis
    using format_output_table [of demo_rows demo_runtime, THEN conjunct1, rule_format, OF ne]
    by (simp add: demo_table)
qed

text \<open>
  C10. In table mode, when record \<open>j\<close> lacks the key of column \<open>i\<close> (a key of the first
  record), formatting does not fail, the record still has its row, and its cell in that
  column is the empty string, padded to the column's width: a run of spaces.
\<close>

theorem table_missing_key_cell:
  assumes "rows \<noteq> []" and "j < length rows" and "i < length (hd rows)"
    and "fst (hd rows ! i) \<notin> fst ` set (rows ! j)"
  shows "\<exists>cells widths.
     table_rows rt (map fst (hd rows)) (map PDict rows) = Inr cells \<and>
     widths = col_widths (map fst (hd rows)) cells \<and>
     format_output rt (PList (map PDict rows)) ''table'' =
       Inr (join [CHR 0x0A]
         ([header_line (map fst (hd rows)) widths, separator widths] @
          data_lines (map fst (hd rows)) widths cells)) \<and>
     length cells = length rows \<and>
     data_lines (map fst (hd rows)) widths cells ! j =
       join '' | '' (padded_cells (map fst (hd rows)) widths (cells ! j)) \<and>
     cells ! j ! i = [] \<and>
     padded_cells (map fst (hd rows)) widths (cells ! j) ! i = replicate (widths ! i) CHR '' ''"
proof -
  define hs where "hs = map fst (hd rows)"
  define cells where "cells = map (\<lambda>r. map (spec_cell rt r) hs) rows"
  define widths where "widths = col_widths hs cells"
  have i: "i < length hs"
    using assms(3) by (simp add: hs_def)
  have t: "table_rows rt hs (map PDict rows) = Inr cells"
    by (simp add: table_rows_dicts cells_def)
  have k: "keys_of (hd (map PDict rows)) = Inr hs"
    using assms(1) by (simp add: hd_map hs_def)
  have f: "format_output rt (PList (map PDict rows)) ''table'' =
       Inr (join [CHR 0x0A] ([header_line hs widths, separator widths] @ data_lines hs widths cells))"
    unfolding format_output_table_dicts [OF assms(1)] format_table_def
    by (simp add: k t widths_def Let_def)
  have "map_of (rows ! j) (hs ! i) = None"
    using assms(4) i by (simp add: hs_def map_of_eq_None_iff)
  then have c: "cells ! j ! i = []"
    using assms(2) i by (simp add: cells_def spec_cell_def)
  have p: "padded_cells hs widths (cells ! j) ! i = replicate (widths ! i) CHR '' ''"
    using i c by (simp add: padded_cells_def ljust_def)
  have d: "data_lines hs widths cells ! j = join '' | '' (padded_cells hs widths (cells ! j))"
    using assms(2) by (simp add: data_lines_def cells_def)
  have l: "length cells = length rows"
    by (simp add: cells_def)
  show ?thesis
    using t f l d c p unfolding hs_def [symmetric] widths_def by blast
qed

text \<open>C10 on the second of two records, which has no price.\<close>

theorem table_missing_key_cell_witness:
  "\<exists>cells widths.
     table_rows demo_runtime (map fst (hd demo_rows)) (map PDict demo_rows) = Inr cells \<and>
     widths = col_widths (map fst (hd demo_rows)) cells \<and>
     format_output demo_runtime (PList (map PDict demo_rows)) ''table'' =
       Inr (join [CHR 0x0A]
         ([header_line (map fst (hd demo_rows)) widths, separator widths] @
          data_lines (map fst (hd demo_rows)) widths cells)) \<and>
     length cells = length demo_rows \<and>
     data_lines (map fst (hd demo_rows)) widths cells ! 1 =
       join '' | '' (padded_cells (map fst (hd demo_rows)) widths (cells ! 1)) \<and>
     cells ! 1 ! 1 = [] \<and>
     padded_cells (map fst (hd demo_rows)) widths (cells ! 1) ! 1 =
       replicate (widths ! 1) CHR '' ''"
proof -
  have "demo_rows \<noteq> []" and "1 < length demo_rows" and "1 < length (hd demo_rows)"
    and "fst (hd demo_rows ! 1) \<notin> fst ` set (demo_rows ! 1)"
    by (simp_all add: demo_rows_def)
  then show ?thesis
    by (rule table_missing_key_cell)
qed

section \<open>The claims about the command handlers\<close>

text \<open>
  C2. Each of the quote, history and news handlers keeps the contract of a record command
  (\<open>spec_handler_contract\<close>) for the library call it makes: an empty result set is reported
  as a JSON error object with the symbol and the handler's "no data" message, with exit
  status 1; an exception of the library is reported as a JSON error object with the
  symbol and the exception's string form, with exit status 1; otherwise the formatted
  records are printed and the exit status is 0.
\<close>

theorem record_commands_contract:
  "spec_handler_contract rt (symbol args) (format args) ''No data returned''
     (quote ob (symbol args) (provider args)) (cmd_quote rt ob args) \<and>
   spec_handler_contract rt (symbol args) (format args) ''No data returned''
     (historical ob (history_kwargs args)) (cmd_history rt ob args) \<and>
   spec_handler_contract rt (symbol args) (format args) ''No news found''
     (company ob (news_kwargs args)) (cmd_news rt ob args)"
  unfolding cmd_quote_def cmd_history_def cmd_news_def
  by (intro conjI print_result_contract)

text \<open>
  C2 on the example library: a known symbol, a symbol without data and a symbol for which
  the library raises.
\<close>

theorem record_commands_contract_witness:
  "status (cmd_quote demo_runtime demo_obb (demo_args ''AAPL'')) = 0 \<and>
   spec_error_report demo_runtime ''No data returned'' ''MSFT''
     (cmd_quote demo_runtime demo_obb (demo_args ''MSFT'')) \<and>
   spec_error_report demo_runtime ''connection refused'' ''DOWN''
     (cmd_quote demo_runtime demo_obb (demo_args ''DOWN'')) \<and>
   status (cmd_history demo_runtime demo_obb (demo_args ''AAPL'')) = 0 \<and>
   spec_error_report demo_runtime ''No data returned'' ''MSFT''
     (cmd_history demo_runtime demo_obb (demo_args ''MSFT'')) \<and>
   spec_error_report demo_runtime ''connection refused'' ''DOWN''
     (cmd_history demo_runtime demo_obb (demo_args ''DOWN'')) \<and>
   status (cmd_news demo_runtime demo_obb (demo_args ''AAPL'')) = 0 \<and>
   spec_error_report demo_runtime ''No news found'' ''MSFT''
     (cmd_news demo_runtime demo_obb (demo_args ''MSFT'')) \<and>
   spec_error_report demo_runtime ''connection refused'' ''DOWN''
     (cmd_news demo_runtime demo_obb (demo_args ''DOWN''))"
proof -
  have args: "symbol (demo_args s) = s" "format (demo_args s) = ''table''" for s
    by (simp_all add: demo_args_def)
  have q: "quote demo_obb s (provider (demo_args s)) =
      demo_lookup [[(''symbol'', SStr ''AAPL''), (''price'', SInt 185)]] s" for s
    by (simp add: demo_obb_def demo_args_def)
  have h: "historical demo_obb (history_kwargs (demo_args s)) = demo_lookup demo_history s" for s
    by (simp add: demo_obb_def demo_args_def history_kwargs_def set_if_given_def dict_get_def)
  have n: "company demo_obb (news_kwargs (demo_args s)) =
      demo_lookup [[(''title'', SStr ''Apple stock rises'')]] s" for s
    by (simp add: demo_obb_def demo_args_def news_kwargs_def set_if_given_def dict_get_def)
  have c: "spec_handler_contract demo_runtime s ''table'' ''No data returned''
       (demo_lookup [[(''symbol'', SStr ''AAPL''), (''price'', SInt 185)]] s)
       (cmd_quote demo_runtime demo_obb (demo_args s)) \<and>
     spec_handler_contract demo_runtime s ''table'' ''No data returned''
       (demo_lookup demo_history s) (cmd_history demo_runtime demo_obb (demo_args s)) \<and>
     spec_handler_contract demo_runtime s ''table'' ''No news found''
       (demo_lookup [[(''title'', SStr ''Apple stock rises'')]] s)
       (cmd_news demo_runtime demo_obb (demo_args s))" for s
    using record_commands_contract [of demo_runtime "demo_args s" demo_obb]
    by (simp only: args q h n)
  note unfold = spec_handler_contract_def demo_lookup_def mock_result_def records_val_def
    demo_history_def
  have a: "status (cmd_quote demo_runtime demo_obb (demo_args ''AAPL'')) = 0 \<and>
      status (cmd_history demo_runtime demo_obb (demo_args ''AAPL'')) = 0 \<and>
      status (cmd_news demo_runtime demo_obb (demo_args ''AAPL'')) = 0"
    using c [of "''AAPL''"] by (auto simp add: unfold)
  have b: "spec_error_report demo_runtime ''No data returned'' ''MSFT''
       (cmd_quote demo_runtime demo_obb (demo_args ''MSFT'')) \<and>
     spec_error_report demo_runtime ''No data returned'' ''MSFT''
       (cmd_history demo_runtime demo_obb (demo_args ''MSFT'')) \<and>
     spec_error_report demo_runtime ''No news found'' ''MSFT''
       (cmd_news demo_runtime demo_obb (demo_args ''MSFT''))"
    using c [of "''MSFT''"] by (simp add: unfold)
  have d: "spec_error_report demo_runtime ''connection refused'' ''DOWN''
       (cmd_quote demo_runtime demo_obb (demo_args ''DOWN'')) \<and>
     spec_error_report demo_runtime ''connection refused'' ''DOWN''
       (cmd_history demo_runtime demo_obb (demo_args ''DOWN'')) \<and>
     spec_error_report demo_runtime ''connection refused'' ''DOWN''
       (cmd_news demo_runtime demo_obb (demo_args ''DOWN''))"
    using c [of "''DOWN''"] by (simp add: unfold)
  show ?thesis
    using a b d by blast
qed

text \<open>
  C1. When the history fetch of the technical command succeeds, the command prints the
  report and exits with status 0, whatever the indicators do. For every requested
  indicator name (after \<^verbatim>\<open>strip\<close> and \<^verbatim>\<open>lower\<close>): if its library call raises, its
  entry is the error message with the exception's string form; if the name is not one of
  the seven supported ones, its entry is the "Unsupported indicator" message; and if its
  own computation yields a report, this report is its entry, whatever happened to the
  other indicators.
\<close>

theorem technical_isolates_indicators:
  assumes "historical ob (technical_kwargs rt args) = Inr history"
    and "truthy (results history)"
  shows "\<exists>text entries.
     entries = indicator_entries rt ob args (results history) \<and>
     format_output rt
       (PDict [(''symbol'', Atom (SStr (symbol args))), (''indicators'', PDict entries)])
       (format args) = Inr text \<and>
     cmd_technical rt ob args = \<lparr>printed = [text], status = 0\<rparr> \<and>
     (\<forall>n \<in> set (indicator_names rt args).
        (\<forall>e. spec_indicator_call ob args (results history) n = Some (Inl e) \<longrightarrow>
           map_of entries n = Some (PDict [(''error'', Atom (SStr (exn_str e)))])) \<and>
        (n \<notin> set spec_supported_indicators \<longrightarrow>
           map_of entries n =
             Some (PDict [(''error'', Atom (SStr (''Unsupported indicator: '' @ n)))])) \<and>
        (\<forall>entry. indicator_step ob args (results history) n = Inr (Some (n, entry)) \<longrightarrow>
           map_of entries n = Some entry))"
proof -
  define entries where "entries = indicator_entries rt ob args (results history)"
  obtain rendered where rendered: "format_output rt
       (PDict [(''symbol'', Atom (SStr (symbol args))), (''indicators'', PDict entries)])
       (format args) = Inr rendered"
    using format_output_dict by blast
  have out: "cmd_technical rt ob args = \<lparr>printed = [rendered], status = 0\<rparr>"
    using assms rendered by (simp add: cmd_technical_def technical_report_def entries_def)
  have per: "(\<forall>e. spec_indicator_call ob args (results history) n = Some (Inl e) \<longrightarrow>
           map_of entries n = Some (PDict [(''error'', Atom (SStr (exn_str e)))])) \<and>
        (n \<notin> set spec_supported_indicators \<longrightarrow>
           map_of entries n =
             Some (PDict [(''error'', Atom (SStr (''Unsupported indicator: '' @ n)))])) \<and>
        (\<forall>entry. indicator_step ob args (results history) n = Inr (Some (n, entry)) \<longrightarrow>
           map_of entries n = Some entry)"
    if n: "n \<in> set (indicator_names rt args)" for n
  proof (intro conjI allI impI)
    fix e
    assume "spec_indicator_call ob args (results history) n = Some (Inl e)"
    then show "map_of entries n = Some (PDict [(''error'', Atom (SStr (exn_str e)))])"
      using n by (simp add: entries_def indicator_entry indicator_step_spec spec_error_entry_def)
  next
    assume "n \<notin> set spec_supported_indicators"
    then have "spec_indicator_call ob args (results history) n = None"
      by (simp add: spec_indicator_call_def spec_supported_indicators_def)
    then show "map_of entries n =
        Some (PDict [(''error'', Atom (SStr (''Unsupported indicator: '' @ n)))])"
      using n by (simp add: entries_def indicator_entry indicator_step_spec spec_error_entry_def)
  next
    fix entry
    assume "indicator_step ob args (results history) n = Inr (Some (n, entry))"
    then show "map_of entries n = Some entry"
      using n by (simp add: entries_def indicator_entry)
  qed
  show ?thesis
    using rendered out per unfolding entries_def by blast
qed

text \<open>
  C1 on the request \<^verbatim>\<open>rsi, MACD,sma,foo\<close> against the example library, whose MACD
  raises: the command exits with status 0, the report has the MACD error and the
  unsupported-indicator entry, and the RSI and SMA reports are there.
\<close>

theorem technical_isolates_indicators_witness:
  "\<exists>text entries.
     entries = indicator_entries demo_runtime demo_obb (demo_args ''AAPL'')
                 (records_val demo_history) \<and>
     cmd_technical demo_runtime demo_obb (demo_args ''AAPL'') =
       \<lparr>printed = [text], status = 0\<rparr> \<and>
     map_of entries ''macd'' = Some (PDict [(''error'', Atom (SStr ''macd failed''))]) \<and>
     map_of entries ''foo'' =
       Some (PDict [(''error'', Atom (SStr ''Unsupported indicator: foo''))]) \<and>
     map_of entries ''rsi'' =
       Some (PDict
         [(''latest'', Atom (SInt 55)), (''period'', Atom (SInt 14)),
          (''recent_data'', PList [PDict [(''close_RSI_14'', Atom (SInt 55))]]),
          (''interpretation'', Atom (SStr rsi_strong))]) \<and>
     map_of entries ''sma'' =
       Some (PDict
         [(''latest'', Atom (SInt 182)), (''period'', Atom (SInt 14)),
          (''recent_data'', PList [PDict [(''close_SMA_14'', Atom (SInt 182))]])])"
proof -
  let ?args = "demo_args ''AAPL''"
  let ?hist = "results (mock_result demo_history)"
  have hist: "?hist = records_val demo_history"
    by (simp add: mock_result_def)
  obtain rendered entries where
    e: "entries = indicator_entries demo_runtime demo_obb ?args ?hist" and
    out: "cmd_technical demo_runtime demo_obb ?args = \<lparr>printed = [rendered], status = 0\<rparr>" and
    per: "\<forall>n \<in> set (indicator_names demo_runtime ?args).
        (\<forall>e. spec_indicator_call demo_obb ?args ?hist n = Some (Inl e) \<longrightarrow>
           map_of entries n = Some (PDict [(''error'', Atom (SStr (exn_str e)))])) \<and>
        (n \<notin> set spec_supported_indicators \<longrightarrow>
           map_of entries n =
             Some (PDict [(''error'', Atom (SStr (''Unsupported indicator: '' @ n)))])) \<and>
        (\<forall>entry. indicator_step demo_obb ?args ?hist n = Inr (Some (n, entry)) \<longrightarrow>
           map_of entries n = Some entry)"
    using technical_isolates_indicators [OF demo_historical demo_history_truthy] by blast
  have p14: "period ?args = 14" "str_int 14 = ''14''"
    by (simp_all add: demo_args_def str_int_def str_nat.simps)
  have "spec_indicator_call demo_obb ?args ?hist ''macd'' = Some (Inl (ExternalError ''macd failed''))"
    by (simp add: spec_indicator_call_def demo_obb_def)
  then have m: "map_of entries ''macd'' = Some (PDict [(''error'', Atom (SStr ''macd failed''))])"
    using per by (simp add: demo_names)
  have "''foo'' \<notin> set spec_supported_indicators"
    by (simp add: spec_supported_indicators_def)
  then have f: "map_of entries ''foo'' =
       Some (PDict [(''error'', Atom (SStr ''Unsupported indicator: foo''))])"
    using per by (simp add: demo_names)
  have "interpret_rsi (SInt 55) = Inr rsi_strong"
    by (simp add: interpret_rsi_def py_if_def)
  then have "indicator_step demo_obb ?args ?hist ''rsi'' = Inr (Some (''rsi'', PDict
         [(''latest'', Atom (SInt 55)), (''period'', Atom (SInt 14)),
          (''recent_data'', PList [PDict [(''close_RSI_14'', Atom (SInt 55))]]),
          (''interpretation'', Atom (SStr rsi_strong))]))"
    by (simp add: indicator_step_def with_records_def demo_obb_def mock_result_def p14
        records_val_def row_val_def last10_def latest_of_def get_indicator_value_def
        find_indicator_key_def dict_get_def Let_def)
  then have r: "map_of entries ''rsi'' = Some (PDict
         [(''latest'', Atom (SInt 55)), (''period'', Atom (SInt 14)),
          (''recent_data'', PList [PDict [(''close_RSI_14'', Atom (SInt 55))]]),
          (''interpretation'', Atom (SStr rsi_strong))])"
    using per by (simp add: demo_names)
  have "indicator_step demo_obb ?args ?hist ''sma'' = Inr (Some (''sma'', PDict
         [(''latest'', Atom (SInt 182)), (''period'', Atom (SInt 14)),
          (''recent_data'', PList [PDict [(''close_SMA_14'', Atom (SInt 182))]])]))"
    by (simp add: indicator_step_def with_records_def demo_obb_def mock_result_def p14
        records_val_def row_val_def last10_def latest_of_def get_indicator_value_def
        find_indicator_key_def dict_get_def Let_def)
  then have s: "map_of entries ''sma'' = Some (PDict
         [(''latest'', Atom (SInt 182)), (''period'', Atom (SInt 14)),
          (''recent_data'', PList [PDict [(''close_SMA_14'', Atom (SInt 182))]])])"
    using per by (simp add: demo_names)
  show ?thesis
    using e out m f r s unfolding hist by blast
qed

text \<open>
  C9. The technical command fetches the history with the keyword arguments
  \<open>technical_kwargs\<close>: without a start date (none given, or an empty one) their start
  date is the time 365 days before now, formatted with \<^verbatim>\<open>%Y-%m-%d\<close>, and with a start
  date it is that date. The answer of the library to exactly these arguments decides the
  outcome of the command, whatever the library would answer to other arguments: an
  exception and an empty history are each reported with exit status 1, and otherwise the
  report over the fetched history is printed with exit status 0.
\<close>

theorem technical_start_date:
  "(start args = None \<or> start args = Some [] \<longrightarrow>
      technical_kwargs rt args =
        [(''symbol'', SStr (symbol args)), (''provider'', SStr (provider args)),
         (''start_date'', SStr (strftime rt (minus_days rt (now rt) 365) ''%Y-%m-%d''))]) \<and>
   (\<forall>s. start args = Some s \<and> s \<noteq> [] \<longrightarrow>
      technical_kwargs rt args =
        [(''symbol'', SStr (symbol args)), (''provider'', SStr (provider args)),
         (''start_date'', SStr s)]) \<and>
   (\<forall>h e. h (technical_kwargs rt args) = Inl e \<longrightarrow>
      spec_error_report rt (exn_str e) (symbol args)
        (cmd_technical rt (ob\<lparr>historical := h\<rparr>) args)) \<and>
   (\<forall>h history. h (technical_kwargs rt args) = Inr history \<and> \<not> truthy (results history) \<longrightarrow>
      spec_error_report rt ''No historical data for technical analysis'' (symbol args)
        (cmd_technical rt (ob\<lparr>historical := h\<rparr>) args)) \<and>
   (\<forall>h history. h (technical_kwargs rt args) = Inr history \<and> truthy (results history) \<longrightarrow>
      (\<exists>text.
         format_output rt (technical_report rt ob args (results history)) (format args) =
           Inr text \<and>
         cmd_technical rt (ob\<lparr>historical := h\<rparr>) args = \<lparr>printed = [text], status = 0\<rparr>))"
proof (intro conjI allI impI)
  assume "start args = None \<or> start args = Some []"
  then show "technical_kwargs rt args =
        [(''symbol'', SStr (symbol args)), (''provider'', SStr (provider args)),
         (''start_date'', SStr (strftime rt (minus_days rt (now rt) 365) ''%Y-%m-%d''))]"
    by (auto simp: technical_kwargs_def)
next
  fix s
  assume "start args = Some s \<and> s \<noteq> []"
  then show "technical_kwargs rt args =
        [(''symbol'', SStr (symbol args)), (''provider'', SStr (provider args)),
         (''start_date'', SStr s)]"
    by (auto simp: technical_kwargs_def)
next
  fix h :: "row \<Rightarrow> pyexn + obb_result" and e :: pyexn
  assume "h (technical_kwargs rt args) = Inl e"
  then show "spec_error_report rt (exn_str e) (symbol args)
        (cmd_technical rt (ob\<lparr>historical := h\<rparr>) args)"
    by (simp add: cmd_technical_fetch spec_error_report_def exit_with_error_def
        error_object_def)
next
  fix h :: "row \<Rightarrow> pyexn + obb_result" and history :: obb_result
  assume "h (technical_kwargs rt args) = Inr history \<and> \<not> truthy (results history)"
  then show "spec_error_report rt ''No historical data for technical analysis'' (symbol args)
        (cmd_technical rt (ob\<lparr>historical := h\<rparr>) args)"
    by (simp add: cmd_technical_fetch spec_error_report_def exit_with_error_def
        error_object_def)
next
  fix h :: "row \<Rightarrow> pyexn + obb_result" and history :: obb_result
  assume a: "h (technical_kwargs rt args) = Inr history \<and> truthy (results history)"
  obtain rendered where
    "format_output rt (technical_report rt ob args (results history)) (format args) =
       Inr rendered"
    unfolding technical_report_def using format_output_dict by blast
  then show "\<exists>text.
         format_output rt (technical_report rt ob args (results history)) (format args) =
           Inr text \<and>
         cmd_technical rt (ob\<lparr>historical := h\<rparr>) args = \<lparr>printed = [text], status = 0\<rparr>"
    using a by (simp add: cmd_technical_fetch)
qed

text \<open>
  C9 on the example clock (noon of 30 June 2024) and the example library: without a start
  date the fetch starts at 1 July 2023, and with \<^verbatim>\<open>--start 2024-01-01\<close> at that date;
  the command succeeds for \<^verbatim>\<open>AAPL\<close>, reports the empty history of \<^verbatim>\<open>MSFT\<close> and
  reports the exception raised for \<^verbatim>\<open>DOWN\<close>.
\<close>

theorem technical_start_date_witness:
  "technical_kwargs demo_runtime (demo_args ''AAPL'') =
     [(''symbol'', SStr ''AAPL''), (''provider'', SStr ''yfinance''),
      (''start_date'', SStr ''2023-07-01'')] \<and>
   technical_kwargs demo_runtime ((demo_args ''AAPL'')\<lparr>start := Some ''2024-01-01''\<rparr>) =
     [(''symbol'', SStr ''AAPL''), (''provider'', SStr ''yfinance''),
      (''start_date'', SStr ''2024-01-01'')] \<and>
   status (cmd_technical demo_runtime demo_obb (demo_args ''AAPL'')) = 0 \<and>
   spec_error_report demo_runtime ''No historical data for technical analysis'' ''MSFT''
     (cmd_technical demo_runtime demo_obb (demo_args ''MSFT'')) \<and>
   spec_error_report demo_runtime ''connection refused'' ''DOWN''
     (cmd_technical demo_runtime demo_obb (demo_args ''DOWN''))"
proof -
  have ob: "demo_obb\<lparr>historical := historical demo_obb\<rparr> = demo_obb"
    by simp
  have fetch: "historical demo_obb (technical_kwargs demo_runtime (demo_args s)) =
      demo_lookup demo_history s" for s
    by (simp add: demo_obb_def technical_kwargs_def demo_args_def dict_get_def)
  have args: "symbol (demo_args s) = s" for s
    by (simp add: demo_args_def)
  note c = technical_start_date [of _ demo_runtime demo_obb]
  have "technical_kwargs demo_runtime (demo_args ''AAPL'') =
     [(''symbol'', SStr ''AAPL''), (''provider'', SStr ''yfinance''),
      (''start_date'', SStr ''2023-07-01'')]"
    using c [of "demo_args ''AAPL''"] by (simp add: demo_args_def demo_runtime_def)
  moreover have "technical_kwargs demo_runtime
      ((demo_args ''AAPL'')\<lparr>start := Some ''2024-01-01''\<rparr>) =
     [(''symbol'', SStr ''AAPL''), (''provider'', SStr ''yfinance''),
      (''start_date'', SStr ''2024-01-01'')]"
    using c [of "(demo_args ''AAPL'')\<lparr>start := Some ''2024-01-01''\<rparr>"]
    by (simp add: demo_args_def)
  moreover have "status (cmd_technical demo_runtime demo_obb (demo_args ''AAPL'')) = 0"
    using c [of "demo_args ''AAPL''", THEN conjunct2, THEN conjunct2, THEN conjunct2,
        THEN conjunct2, rule_format, of "historical demo_obb" "mock_result demo_history"]
    by (auto simp: ob fetch demo_lookup_def demo_history_truthy)
  moreover have "spec_error_report demo_runtime ''No historical data for technical analysis''
      ''MSFT'' (cmd_technical demo_runtime demo_obb (demo_args ''MSFT''))"
    using c [of "demo_args ''MSFT''", THEN conjunct2, THEN conjunct2, THEN conjunct2,
        THEN conjunct1, rule_format, of "historical demo_obb" "mock_result []"]
    by (simp add: ob fetch args demo_lookup_def mock_result_def records_val_def)
  moreover have "spec_error_report demo_runtime ''connection refused'' ''DOWN''
      (cmd_technical demo_runtime demo_obb (demo_args ''DOWN''))"
    using c [of "demo_args ''DOWN''", THEN conjunct2, THEN conjunct2, THEN conjunct1,
        rule_format, of "historical demo_obb" "ExternalError ''connection refused''"]
    by (simp add: ob fetch args demo_lookup_def)
  ultimately show ?thesis by blast
qed

text \<open>
  C6, amended. For every requested indicator name: when its library call returns a
  non-empty result with records \<open>recs\<close>, the recent records are the last ten of them (all,
  when there are fewer), and its entry is the report \<open>spec_entry\<close> over them, with the
  latest values, the period for \<^verbatim>\<open>rsi\<close>, \<^verbatim>\<open>sma\<close>, \<^verbatim>\<open>ema\<close>, \<^verbatim>\<open>bbands\<close> and
  \<^verbatim>\<open>adx\<close>, the recent records, and the caption for \<^verbatim>\<open>rsi\<close>, \<^verbatim>\<open>macd\<close>, \<^verbatim>\<open>adx\<close> and
  \<^verbatim>\<open>stoch\<close>; when the call, the conversion to records or the classifier raises, its entry
  is the error message with the exception's string form; and when the name is not
  supported, its entry is the "Unsupported indicator" message.
\<close>

theorem indicator_report_entries:
  assumes "n \<in> set (indicator_names rt args)"
  shows
   "(\<forall>r recs.
       spec_indicator_call ob args hist n = Some (Inr r) \<and> truthy (results r) \<and>
       to_dict r = Inr recs \<longrightarrow>
         (\<exists>older. recs = older @ last10 recs) \<and>
         length (last10 recs) = min 10 (length recs) \<and>
         (spec_classifier args n (latest_of (last10 recs)) = None \<longrightarrow>
            map_of (indicator_entries rt ob args hist) n =
              Some (spec_entry args n (last10 recs) None)) \<and>
         (\<forall>caption. spec_classifier args n (latest_of (last10 recs)) = Some (Inr caption) \<longrightarrow>
            map_of (indicator_entries rt ob args hist) n =
              Some (spec_entry args n (last10 recs) (Some caption))) \<and>
         (\<forall>e. spec_classifier args n (latest_of (last10 recs)) = Some (Inl e) \<longrightarrow>
            map_of (indicator_entries rt ob args hist) n =
              Some (PDict [(''error'', Atom (SStr (exn_str e)))]))) \<and>
    (\<forall>e. spec_indicator_call ob args hist n = Some (Inl e) \<longrightarrow>
       map_of (indicator_entries rt ob args hist) n =
         Some (PDict [(''error'', Atom (SStr (exn_str e)))])) \<and>
    (\<forall>r e. spec_indicator_call ob args hist n = Some (Inr r) \<and> truthy (results r) \<and>
       to_dict r = Inl e \<longrightarrow>
       map_of (indicator_entries rt ob args hist) n =
         Some (PDict [(''error'', Atom (SStr (exn_str e)))])) \<and>
    (spec_indicator_call ob args hist n = None \<longrightarrow>
       map_of (indicator_entries rt ob args hist) n =
         Some (PDict [(''error'', Atom (SStr (''Unsupported indicator: '' @ n)))]))"
  using assms last10_suffix
  by (auto simp: indicator_entry indicator_step_spec spec_error_entry_def last10_length)

text \<open>
  C6, amended, on the request \<^verbatim>\<open>rsi, MACD,sma,foo\<close> against the example library: the
  RSI and SMA reports, the error of the failed MACD call and the unsupported name.
\<close>

theorem indicator_report_entries_witness:
  "map_of (indicator_entries demo_runtime demo_obb (demo_args ''AAPL'')
       (records_val demo_history)) ''rsi'' =
     Some (PDict
       [(''latest'', Atom (SInt 55)), (''period'', Atom (SInt 14)),
        (''recent_data'', PList [PDict [(''close_RSI_14'', Atom (SInt 55))]]),
        (''interpretation'', Atom (SStr rsi_strong))]) \<and>
   map_of (indicator_entries demo_runtime demo_obb (demo_args ''AAPL'')
       (records_val demo_history)) ''sma'' =
     Some (PDict
       [(''latest'', Atom (SInt 182)), (''period'', Atom (SInt 14)),
        (''recent_data'', PList [PDict [(''close_SMA_14'', Atom (SInt 182))]])]) \<and>
   map_of (indicator_entries demo_runtime demo_obb (demo_args ''AAPL'')
       (records_val demo_history)) ''macd'' =
     Some (PDict [(''error'', Atom (SStr ''macd failed''))]) \<and>
   map_of (indicator_entries demo_runtime demo_obb (demo_args ''AAPL'')
       (records_val demo_history)) ''foo'' =
     Some (PDict [(''error'', Atom (SStr ''Unsupported indicator: foo''))])"
proof -
  let ?args = "demo_args ''AAPL''"
  let ?hist = "records_val demo_history"
  let ?entries = "indicator_entries demo_runtime demo_obb ?args ?hist"
  note unfold = spec_indicator_call_def demo_obb_def mock_result_def records_val_def row_val_def
    spec_classifier_def spec_entry_def spec_latest_fields_def spec_echoes_period_def latest_of_def last10_def
    get_indicator_value_def find_indicator_key_def dict_get_def
  have p14: "period ?args = 14" "str_int 14 = ''14''"
    by (simp_all add: demo_args_def str_int_def str_nat.simps)
  have i55: "interpret_rsi (SInt 55) = Inr rsi_strong"
    by (simp add: interpret_rsi_def py_if_def)
  have "''rsi'' \<in> set (indicator_names demo_runtime ?args)"
    by (simp add: demo_names)
  from indicator_report_entries [OF this, of demo_obb ?hist, THEN conjunct1, rule_format,
      of "mock_result [[(''close_RSI_14'', SInt 55)]]" "[[(''close_RSI_14'', SInt 55)]]"]
  have r: "map_of ?entries ''rsi'' = Some (PDict
       [(''latest'', Atom (SInt 55)), (''period'', Atom (SInt 14)),
        (''recent_data'', PList [PDict [(''close_RSI_14'', Atom (SInt 55))]]),
        (''interpretation'', Atom (SStr rsi_strong))])"
    by (simp add: unfold p14 i55)
  have "''sma'' \<in> set (indicator_names demo_runtime ?args)"
    by (simp add: demo_names)
  from indicator_report_entries [OF this, of demo_obb ?hist, THEN conjunct1, rule_format,
      of "mock_result [[(''close_SMA_14'', SInt 182)]]" "[[(''close_SMA_14'', SInt 182)]]"]
  have s: "map_of ?entries ''sma'' = Some (PDict
       [(''latest'', Atom (SInt 182)), (''period'', Atom (SInt 14)),
        (''recent_data'', PList [PDict [(''close_SMA_14'', Atom (SInt 182))]])])"
    by (simp add: unfold p14)
  have "''macd'' \<in> set (indicator_names demo_runtime ?args)"
    by (simp add: demo_names)
  from indicator_report_entries [OF this, of demo_obb ?hist]
  have m: "map_of ?entries ''macd'' = Some (PDict [(''error'', Atom (SStr ''macd failed''))])"
    by (simp add: spec_indicator_call_def demo_obb_def)
  have "''foo'' \<in> set (indicator_names demo_runtime ?args)"
    by (simp add: demo_names)
  from indicator_report_entries [OF this, of demo_obb ?hist]
  have f: "map_of ?entries ''foo'' =
      Some (PDict [(''error'', Atom (SStr ''Unsupported indicator: foo''))])"
    by (simp add: spec_indicator_call_def)
  show ?thesis
    using r s m f by blast
qed

text \<open>
  C6 as stated fails on the request \<^verbatim>\<open>bbands,stoch\<close> against the example library. The
  Bollinger call returns an empty result: \<^verbatim>\<open>bbands\<close> is requested and gets no entry at
  all, neither a report nor an error message. The stochastic call succeeds: its entry has
  the latest values, the recent records and the caption, and no period.
\<close>

theorem indicator_report_counterexample:
  "indicator_names demo_runtime ((demo_args ''AAPL'')\<lparr>indicators := ''bbands,stoch''\<rparr>) =
     [''bbands'', ''stoch''] \<and>
   spec_indicator_call demo_obb ((demo_args ''AAPL'')\<lparr>indicators := ''bbands,stoch''\<rparr>)
     (records_val demo_history) ''bbands'' = Some (Inr (mock_result [])) \<and>
   \<not> truthy (results (mock_result [])) \<and>
   map_of (indicator_entries demo_runtime demo_obb
       ((demo_args ''AAPL'')\<lparr>indicators := ''bbands,stoch''\<rparr>) (records_val demo_history))
     ''bbands'' = None \<and>
   map_of (indicator_entries demo_runtime demo_obb
       ((demo_args ''AAPL'')\<lparr>indicators := ''bbands,stoch''\<rparr>) (records_val demo_history))
     ''stoch'' =
     Some (PDict
       [(''k'', Atom (SInt 85)), (''d'', Atom (SInt 82)),
        (''recent_data'',
           PList [PDict [(''STOCHk_14_3_3'', Atom (SInt 85)), (''STOCHd_14_3_3'', Atom (SInt 82))]]),
        (''interpretation'', Atom (SStr stoch_overbought))])"
proof -
  let ?args = "(demo_args ''AAPL'')\<lparr>indicators := ''bbands,stoch''\<rparr>"
  have names: "indicator_names demo_runtime ?args = [''bbands'', ''stoch'']"
    by (simp add: indicator_names_def demo_runtime_def demo_args_def ascii_lower_def
        ascii_strip_def ascii_space_def)
  have call: "spec_indicator_call demo_obb ?args (records_val demo_history) ''bbands'' =
      Some (Inr (mock_result []))"
    by (simp add: spec_indicator_call_def demo_obb_def)
  have empty: "\<not> truthy (results (mock_result []))"
    by (simp add: mock_result_def records_val_def)
  have b: "indicator_step demo_obb ?args (records_val demo_history) ''bbands'' = Inr None"
    by (simp add: indicator_step_def with_records_def demo_obb_def mock_result_def
        records_val_def)
  have "interpret_stoch [(''k'', SInt 85), (''d'', SInt 82)] = Inr stoch_overbought"
    by (simp add: interpret_stoch_def dict_get_def py_if_def py_and_def)
  then have s: "indicator_step demo_obb ?args (records_val demo_history) ''stoch'' =
      Inr (Some (''stoch'', PDict
       [(''k'', Atom (SInt 85)), (''d'', Atom (SInt 82)),
        (''recent_data'',
           PList [PDict [(''STOCHk_14_3_3'', Atom (SInt 85)), (''STOCHd_14_3_3'', Atom (SInt 82))]]),
        (''interpretation'', Atom (SStr stoch_overbought))]))"
    by (simp add: indicator_step_def with_records_def demo_obb_def mock_result_def
        records_val_def row_val_def last10_def latest_of_def get_indicator_value_def
        find_indicator_key_def dict_get_def Let_def)
  show ?thesis
    by (simp add: names call empty indicator_entries_def indicator_turn_def b s)
qed

end
